theory Spec2Isabelle
  imports Main "HOL-Library.Sublist" "HOL-Library.Char_ord" "HOL-Library.List_Lexorder"
begin

section \<open>Python text operations\<close>

text \<open>
  Python strings are modelled as \<^typ>\<open>string\<close>, one \<^typ>\<open>char\<close> per ASCII character
  (the check mark of the success messages is its three UTF-8 bytes). The test
  \<^verbatim>\<open>p in s\<close> on strings is \<^const>\<open>sublist\<close>: \<open>p\<close> occurs in \<open>s\<close> as a contiguous run.
\<close>

definition ascii_uppercase :: string where
  "ascii_uppercase = ''ABCDEFGHIJKLMNOPQRSTUVWXYZ''"

definition ascii_lowercase :: string where
  "ascii_lowercase = ''abcdefghijklmnopqrstuvwxyz''"

definition lower_char :: "char \<Rightarrow> char" where
  "lower_char c = (case map_of (zip ascii_uppercase ascii_lowercase) c of
                     Some l \<Rightarrow> l | None \<Rightarrow> c)"

definition upper_char :: "char \<Rightarrow> char" where
  "upper_char c = (case map_of (zip ascii_lowercase ascii_uppercase) c of
                     Some u \<Rightarrow> u | None \<Rightarrow> c)"

text \<open>\<^verbatim>\<open>s.lower()\<close>\<close>

definition lower :: "string \<Rightarrow> string" where
  "lower s = map lower_char s"

definition newline :: char where
  "newline = CHR 0x0A"

text \<open>\<^verbatim>\<open>str(n)\<close> of an integer, in decimal.\<close>

definition digit_char :: "nat \<Rightarrow> char" where
  "digit_char d = ''0123456789'' ! d"

fun str_nat :: "nat \<Rightarrow> string" where
  "str_nat n = (if n < 10 then [digit_char n]
                else str_nat (n div 10) @ [digit_char (n mod 10)])"

declare str_nat.simps [simp del]

definition str_int :: "int \<Rightarrow> string" where
  "str_int i = (if i < 0 then CHR ''-'' # str_nat (nat (- i)) else str_nat (nat i))"

section \<open>Conversation state (agent.py)\<close>

text \<open>
  A message of the log: its text, its optional \<^verbatim>\<open>name\<close> (the origin tag that the
  handlers set; \<^verbatim>\<open>None\<close> on a user message) and whether it is an \<^verbatim>\<open>AIMessage\<close>.
\<close>

record message =
  content :: string
  name :: "string option"
  is_ai :: bool

text \<open>\<^verbatim>\<open>AgentState\<close>; the key \<^verbatim>\<open>next\<close> is the field \<open>state_next\<close>.\<close>

record agent_state =
  messages :: "message list"
  id_number :: int
  state_next :: string
  query :: string
  current_reasoning :: string

text \<open>\<^verbatim>\<open>Router\<close>, the structured decision asked of the language model.\<close>

record router =
  "next" :: string
  reasoning :: string

text \<open>
  \<^verbatim>\<open>Command(goto=..., update={'next': ..., 'current_reasoning': ...})\<close>, the value a
  supervisor step returns.
\<close>

record command =
  goto :: string
  update_next :: string
  update_current_reasoning :: string

definition END :: string where
  "END = ''__end__''"

datatype py_error = IndexError

text \<open>
  The language model with structured output is outside the program. It is a parameter:
  a function from the chat it is sent (role and text of each message) to the fields of
  its answer, \<open>None\<close> when the call raises (call failure, timeout, output that does not
  parse).
\<close>

type_synonym llm = "(string \<times> string) list \<Rightarrow> (string \<times> string) option"

text \<open>
  \<^verbatim>\<open>self.llm_model.with_structured_output(Router).invoke(messages)\<close>: the answer is
  validated against \<^verbatim>\<open>Router\<close>, whose \<^verbatim>\<open>next\<close> is one of three literals; an answer that
  fails the validation raises as well.
\<close>

definition with_structured_output_invoke :: "llm \<Rightarrow> (string \<times> string) list \<Rightarrow> router option" where
  "with_structured_output_invoke model chat =
     (case model chat of
        None \<Rightarrow> None
      | Some (n, r) \<Rightarrow>
          if n \<in> set [''information_node'', ''booking_node'', ''FINISH'']
          then Some \<lparr>next = n, reasoning = r\<rparr> else None)"

definition info_calls :: "agent_state \<Rightarrow> nat" where
  "info_calls state =
     length (filter (\<lambda>m. name m = Some ''information_node'') (messages state))"

definition booking_calls :: "agent_state \<Rightarrow> nat" where
  "booking_calls state =
     length (filter (\<lambda>m. name m = Some ''booking_node'') (messages state))"

text \<open>
  The system message of the routing prompt. \<^verbatim>\<open>system_prompt\<close> comes from the prompt
  library, which is a parameter here. The last line of the state block reads the name
  of the last message, which Python prints as \<^verbatim>\<open>None\<close> when it is unset.
\<close>

definition str_name :: "string option \<Rightarrow> string" where
  "str_name n = (case n of None \<Rightarrow> ''None'' | Some s \<Rightarrow> s)"

definition routing_rules :: "string list" where
  \<open>routing_rules =
     ['''',
      ''    IMPORTANT ROUTING RULES:'',
      ''    1. If user asks to "check availability", route to information_node'',
      ''    2. If user asks to "check AND book", FIRST route to information_node to check availability'',
      ''    3. After information_node confirms availability, route to booking_node to complete the booking'',
      ''    4. If booking was completed (success or failure), route to FINISH'',
      ''    5. If no progress after 3 attempts, route to FINISH'',
      '''']\<close>

definition system_message :: "string \<Rightarrow> agent_state \<Rightarrow> message \<Rightarrow> string" where
  \<open>system_message system_prompt state last_msg =
     concat (map (\<lambda>l. l @ [newline])
       ([system_prompt] @ routing_rules @
        [''    Current state:'',
         ''    - User ID: '' @ str_int (id_number state),
         ''    - Information checks done: '' @ str_nat (info_calls state),
         ''    - Booking attempts done: '' @ str_nat (booking_calls state),
         ''    - Last message was from: '' @ str_name (name last_msg),
         '''',
         ''    Respond with JSON: {"next": "information_node"|"booking_node"|"FINISH", "reasoning": "explanation"}'']))
     @ ''    ''\<close>

definition chat_of :: "string \<Rightarrow> agent_state \<Rightarrow> message \<Rightarrow> (string \<times> string) list" where
  "chat_of system_prompt state last_msg =
     (''system'', system_message system_prompt state last_msg) #
     map (\<lambda>msg. (if is_ai msg then ''assistant'' else ''user'', content msg)) (messages state)"

text \<open>
  The \<^verbatim>\<open>except\<close> block of \<^verbatim>\<open>supervisor_node\<close>: the deterministic fallback. It reads
  \<^verbatim>\<open>state['messages'][-1]\<close> first, which raises on an empty log; the first message is
  read under a guard.
\<close>

definition first_msg :: "agent_state \<Rightarrow> string" where
  "first_msg state = (case messages state of [] \<Rightarrow> '''' | m # _ \<Rightarrow> lower (content m))"

definition is_check_and_book :: "agent_state \<Rightarrow> bool" where
  "is_check_and_book state =
     (sublist ''check'' (first_msg state) \<and> sublist ''book'' (first_msg state))"

definition fallback :: "agent_state \<Rightarrow> py_error + string \<times> string" where
  "fallback state =
     (if messages state = [] then Inl IndexError
      else
        let last_msg = last (messages state);
            last_content = lower (content last_msg)
        in Inr
         (if name last_msg = Some ''information_node'' then
            (if (sublist ''available'' last_content \<or> sublist ''slot'' last_content) \<and>
                (\<not> sublist ''no available'' last_content \<and>
                 \<not> sublist ''not available'' last_content)
             then (''booking_node'', ''Fallback: availability confirmed, routing to booking'')
             else if sublist ''no available'' last_content \<or>
                     sublist ''not available'' last_content
             then (''FINISH'', ''Fallback: no availability found'')
             else if is_check_and_book state \<and> booking_calls state = 0
             then (''booking_node'', ''Fallback: proceeding to booking as requested'')
             else (''FINISH'', ''Fallback: information provided''))
          else if name last_msg = Some ''booking_node'' then
            (''FINISH'', ''Fallback: booking complete'')
          else if info_calls state = 0 \<and> booking_calls state = 0 then
            (if sublist ''check'' (first_msg state) \<or> sublist ''available'' (first_msg state)
             then (''information_node'', ''Fallback: checking availability first'')
             else if sublist ''book'' (first_msg state) \<or>
                     sublist ''appointment'' (first_msg state)
             then (''booking_node'', ''Fallback: direct booking request'')
             else (''FINISH'', ''Fallback: unclear request''))
          else (''FINISH'', ''Fallback: ending conversation'')))"

text \<open>The tail of \<^verbatim>\<open>supervisor_node\<close>: \<^verbatim>\<open>FINISH\<close> becomes \<^verbatim>\<open>END\<close> in \<^verbatim>\<open>goto\<close>.\<close>

definition to_command :: "string \<times> string \<Rightarrow> command" where
  "to_command d =
     (let goto' = (if fst d = ''FINISH'' then END else fst d)
      in \<lparr>goto = goto',
          update_next = (if goto' \<noteq> END then goto' else ''FINISH''),
          update_current_reasoning = snd d\<rparr>)"

definition supervisor_node :: "string \<Rightarrow> llm \<Rightarrow> agent_state \<Rightarrow> py_error + command" where
  "supervisor_node system_prompt model state =
     (if info_calls state + booking_calls state \<ge> 6 then
        Inr \<lparr>goto = END, update_next = ''FINISH'',
             update_current_reasoning = ''Maximum iterations reached''\<rparr>
      else if messages state = [] then Inl IndexError
      else
        case with_structured_output_invoke model
               (chat_of system_prompt state (last (messages state))) of
          Some response \<Rightarrow> Inr (to_command (next response, reasoning response))
        | None \<Rightarrow>
            (case fallback state of
               Inl e \<Rightarrow> Inl e
             | Inr d \<Rightarrow> Inr (to_command d)))"

section \<open>More text operations (toolkits.py)\<close>

definition is_digit :: "char \<Rightarrow> bool" where
  "is_digit c = (c \<in> set ''0123456789'')"

definition is_cased :: "char \<Rightarrow> bool" where
  "is_cased c = (c \<in> set ascii_uppercase \<or> c \<in> set ascii_lowercase)"

text \<open>The ASCII characters for which \<^verbatim>\<open>str.isspace\<close> holds; \<^verbatim>\<open>\s\<close> matches the same ones.\<close>

definition is_space :: "char \<Rightarrow> bool" where
  "is_space c = (c \<in> set [CHR '' '', CHR 0x09, CHR 0x0A, CHR 0x0B, CHR 0x0C, CHR 0x0D,
                            CHR 0x1C, CHR 0x1D, CHR 0x1E, CHR 0x1F])"

text \<open>\<^verbatim>\<open>s.strip()\<close>\<close>

definition strip :: "string \<Rightarrow> string" where
  "strip s = rev (dropWhile is_space (rev (dropWhile is_space s)))"

text \<open>
  \<^verbatim>\<open>s.title()\<close>: a letter that follows a letter is lower-cased, any other letter is
  upper-cased.
\<close>

fun title_from :: "bool \<Rightarrow> string \<Rightarrow> string" where
  "title_from previous_is_cased [] = []"
| "title_from previous_is_cased (c # cs) =
     (if previous_is_cased then lower_char c else upper_char c) # title_from (is_cased c) cs"

definition title :: "string \<Rightarrow> string" where
  "title s = title_from False s"

text \<open>\<^verbatim>\<open>s.split(sep)\<close> for a separator of one character.\<close>

fun split_on :: "char \<Rightarrow> string \<Rightarrow> string list" where
  "split_on sep [] = [[]]"
| "split_on sep (c # cs) =
     (if c = sep then [] # split_on sep cs
      else (case split_on sep cs of
              [] \<Rightarrow> [[c]]
            | w # ws \<Rightarrow> (c # w) # ws))"

text \<open>\<^verbatim>\<open>sep.join(xs)\<close>\<close>

fun join :: "string \<Rightarrow> string list \<Rightarrow> string" where
  "join sep [] = []"
| "join sep [x] = x"
| "join sep (x # y # ys) = x @ sep @ join sep (y # ys)"

text \<open>\<^verbatim>\<open>s.replace('_', ' ')\<close>\<close>

definition replace_char :: "char \<Rightarrow> char \<Rightarrow> string \<Rightarrow> string" where
  "replace_char old new s = map (\<lambda>c. if c = old then new else c) s"

text \<open>
  \<^verbatim>\<open>int(s)\<close> on a string: white space around it is dropped, a sign may lead, the digits
  may be grouped by single underscores. \<open>None\<close> is the \<^verbatim>\<open>ValueError\<close>.
\<close>

definition digit_val :: "char \<Rightarrow> nat" where
  "digit_val c = (case map_of (zip ''0123456789'' [0, 1, 2, 3, 4, 5, 6, 7, 8, 9]) c of
                    Some v \<Rightarrow> v | None \<Rightarrow> 0)"

definition digits_val :: "string \<Rightarrow> nat" where
  "digits_val s = foldl (\<lambda>acc c. 10 * acc + digit_val c) 0 s"

definition int_digits :: "string \<Rightarrow> nat option" where
  "int_digits s =
     (let groups = split_on (CHR ''_'') s
      in if list_all (\<lambda>g. g \<noteq> [] \<and> list_all is_digit g) groups
         then Some (digits_val (concat groups)) else None)"

definition py_int :: "string \<Rightarrow> int option" where
  "py_int s =
     (case strip s of
        [] \<Rightarrow> None
      | c # r \<Rightarrow>
          if c = CHR ''-'' then map_option (\<lambda>n. - int n) (int_digits r)
          else if c = CHR ''+'' then map_option int (int_digits r)
          else map_option int (int_digits (c # r)))"

text \<open>\<^verbatim>\<open>f"{n:02d}"\<close>: the decimal text, padded with a zero to two characters.\<close>

definition fmt_02d :: "int \<Rightarrow> string" where
  "fmt_02d n = (if length (str_int n) < 2 then CHR ''0'' # str_int n else str_int n)"

section \<open>The slot store (toolkits.py)\<close>

text \<open>
  One row of \<^verbatim>\<open>doctor_availability.csv\<close>. \<^verbatim>\<open>patient_to_attend\<close> is empty (\<open>None\<close>, a NaN
  once read) or holds a patient id. A data frame is the list of the rows in file order;
  nothing in the program stops two rows from having the same doctor and date-time.
\<close>

record slot =
  doctor_name :: string
  specialization :: string
  date_slot :: string
  is_available :: bool
  patient_to_attend :: "int option"

type_synonym data_frame = "slot list"

text \<open>
  The file behind \<^verbatim>\<open>pd.read_csv\<close> and \<^verbatim>\<open>df.to_csv\<close>: \<open>None\<close> when it does not exist
  (\<^verbatim>\<open>FileNotFoundError\<close>), else its rows. Every tool takes the file and returns its
  text result with the file as it leaves it. The two spellings of the path in the source
  (\<^verbatim>\<open>data/...\<close> and \<^verbatim>\<open>data\...\<close>) name this one file.
\<close>

type_synonym store = "data_frame option"

definition valid_doctors :: "string list" where
  "valid_doctors = [''kevin anderson'', ''robert martinez'', ''susan davis'', ''daniel miller'',
                    ''sarah wilson'', ''michael green'', ''lisa brown'', ''jane smith'',
                    ''emily johnson'', ''john doe'']"

text \<open>
  Modelled from the spec: \<^verbatim>\<open>DateModel\<close>, \<^verbatim>\<open>DateTimeModel\<close> and
  \<^verbatim>\<open>IdentificationNumberModel\<close> of \<^verbatim>\<open>data_models.models\<close>, which is not among the
  sources. The spec gives the accepted shapes: a date is \<^verbatim>\<open>DD-MM-YYYY\<close>, a date-time is
  \<^verbatim>\<open>DD-MM-YYYY HH:MM\<close>, an id has 7 or 8 digits. In a shape, \<^verbatim>\<open>d\<close> stands for a digit
  and any other character for itself. A validated value is the text it was given.
\<close>

fun matches_shape :: "string \<Rightarrow> string \<Rightarrow> bool" where
  "matches_shape [] [] = True"
| "matches_shape (p # ps) (c # cs) =
     ((if p = CHR ''d'' then is_digit c else c = p) \<and> matches_shape ps cs)"
| "matches_shape _ _ = False"

definition DateModel :: "string \<Rightarrow> string option" where
  "DateModel d = (if matches_shape ''dd-dd-dddd'' d then Some d else None)"

definition DateTimeModel :: "string \<Rightarrow> string option" where
  "DateTimeModel d = (if matches_shape ''dd-dd-dddd dd:dd'' d then Some d else None)"

definition IdentificationNumberModel :: "int \<Rightarrow> int option" where
  "IdentificationNumberModel i = (if 1000000 \<le> i \<and> i \<le> 99999999 then Some i else None)"

text \<open>
  Modelled from the spec: the text of a \<^verbatim>\<open>ValidationError\<close>, which the validation
  library writes; the spec only says that it is a literal descriptive text. The model
  keeps its first line, which names the validator.
\<close>

definition str_ValidationError :: "string \<Rightarrow> string" where
  "str_ValidationError model_name = ''1 validation error for '' @ model_name"

text \<open>The check mark that opens the success messages, in UTF-8.\<close>

definition check_mark :: string where
  "check_mark = [CHR 0xE2, CHR 0x9C, CHR 0x93]"

subsection \<open>\<^verbatim>\<open>set_appointment\<close>\<close>

definition booked_message :: "string \<Rightarrow> int \<Rightarrow> string \<Rightarrow> string" where
  "booked_message date idn doctor =
     check_mark @ '' Appointment successfully booked!'' @ [newline] @
     ''Doctor: Dr. '' @ title doctor @ [newline] @
     ''Date & Time: '' @ date @ [newline] @
     ''Patient ID: '' @ str_int idn"

definition no_slot_message :: "string \<Rightarrow> string \<Rightarrow> string" where
  "no_slot_message date doctor =
     ''No appointment slot exists for Dr. '' @ title doctor @ '' at '' @ date @
     ''. Please check availability first.''"

definition already_booked_message :: "string \<Rightarrow> string \<Rightarrow> string" where
  "already_booked_message date doctor =
     ''The slot at '' @ date @ '' with Dr. '' @ title doctor @ '' is already booked.''"

definition set_appointment :: "string \<Rightarrow> int \<Rightarrow> string \<Rightarrow> store \<Rightarrow> string \<times> store" where
  "set_appointment desired_date idn doctor file =
     (case DateTimeModel desired_date of
        None \<Rightarrow> (''Invalid input: '' @ str_ValidationError ''DateTimeModel'', file)
      | Some validated_date \<Rightarrow>
     (case IdentificationNumberModel idn of
        None \<Rightarrow> (''Invalid input: '' @ str_ValidationError ''IdentificationNumberModel'', file)
      | Some validated_id \<Rightarrow>
     (case file of
        None \<Rightarrow> (''Error: doctor_availability.csv file not found'', file)
      | Some df \<Rightarrow>
          if filter (\<lambda>r. date_slot r = validated_date \<and> doctor_name r = doctor \<and>
                          is_available r) df = []
          then
            (if filter (\<lambda>r. date_slot r = validated_date \<and> doctor_name r = doctor) df = []
             then (no_slot_message validated_date doctor, file)
             else (already_booked_message validated_date doctor, file))
          else
            (booked_message validated_date validated_id doctor,
             Some (map (\<lambda>r. if date_slot r = validated_date \<and> doctor_name r = doctor \<and>
                                is_available r
                             then r\<lparr>is_available := False,
                                    patient_to_attend := Some validated_id\<rparr>
                             else r) df)))))"

subsection \<open>\<^verbatim>\<open>cancel_appointment\<close>\<close>

definition no_appointment_found_message :: "string \<Rightarrow> int \<Rightarrow> string \<Rightarrow> string" where
  "no_appointment_found_message date idn doctor =
     ''No appointment found for patient ID '' @ str_int idn @ '' with Dr. '' @ title doctor @
     '' on '' @ date"

definition cancelled_message :: "string \<Rightarrow> int \<Rightarrow> string \<Rightarrow> string" where
  "cancelled_message date idn doctor =
     check_mark @ '' Appointment successfully cancelled for patient ID '' @ str_int idn @
     '' with Dr. '' @ title doctor @ '' on '' @ date"

definition cancel_appointment :: "string \<Rightarrow> int \<Rightarrow> string \<Rightarrow> store \<Rightarrow> string \<times> store" where
  "cancel_appointment date idn doctor file =
     (case DateTimeModel date of
        None \<Rightarrow> (''Invalid input: '' @ str_ValidationError ''DateTimeModel'', file)
      | Some validated_date \<Rightarrow>
     (case IdentificationNumberModel idn of
        None \<Rightarrow> (''Invalid input: '' @ str_ValidationError ''IdentificationNumberModel'', file)
      | Some validated_id \<Rightarrow>
     (case file of
        None \<Rightarrow> (''Error: doctor_availability.csv file not found'', file)
      | Some df \<Rightarrow>
          if filter (\<lambda>r. date_slot r = validated_date \<and>
                          patient_to_attend r = Some validated_id \<and>
                          doctor_name r = doctor) df = []
          then (no_appointment_found_message validated_date validated_id doctor, file)
          else
            (cancelled_message validated_date validated_id doctor,
             Some (map (\<lambda>r. if date_slot r = validated_date \<and>
                                patient_to_attend r = Some validated_id \<and>
                                doctor_name r = doctor
                             then r\<lparr>is_available := True, patient_to_attend := None\<rparr>
                             else r) df)))))"

subsection \<open>\<^verbatim>\<open>reschedule_appointment\<close>\<close>

definition not_available_at_message :: "string \<Rightarrow> string \<Rightarrow> string" where
  "not_available_at_message date doctor =
     ''Dr. '' @ title doctor @ '' is not available at '' @ date @
     ''. Please choose another time slot.''"

definition rescheduled_message :: "string \<Rightarrow> string \<Rightarrow> string \<Rightarrow> string" where
  "rescheduled_message old_date new_date doctor =
     check_mark @ '' Appointment successfully rescheduled from '' @ old_date @ '' to '' @
     new_date @ '' with Dr. '' @ title doctor"

text \<open>
  The third component is the list of the tools that the call invoked, in order. The
  source has no such list; it records which of \<^verbatim>\<open>cancel_appointment.invoke\<close> and
  \<^verbatim>\<open>set_appointment.invoke\<close> were reached.
\<close>

definition reschedule_appointment ::
  "string \<Rightarrow> string \<Rightarrow> int \<Rightarrow> string \<Rightarrow> store \<Rightarrow> string \<times> store \<times> string list" where
  "reschedule_appointment old_date new_date idn doctor file =
     (case DateTimeModel old_date of
        None \<Rightarrow> (''Invalid input: '' @ str_ValidationError ''DateTimeModel'', file, [])
      | Some validated_old_date \<Rightarrow>
     (case DateTimeModel new_date of
        None \<Rightarrow> (''Invalid input: '' @ str_ValidationError ''DateTimeModel'', file, [])
      | Some validated_new_date \<Rightarrow>
     (case IdentificationNumberModel idn of
        None \<Rightarrow> (''Invalid input: '' @ str_ValidationError ''IdentificationNumberModel'', file, [])
      | Some validated_id \<Rightarrow>
     (case file of
        None \<Rightarrow> (''Error: doctor_availability.csv file not found'', file, [])
      | Some df \<Rightarrow>
          if filter (\<lambda>r. date_slot r = validated_new_date \<and> is_available r \<and>
                          doctor_name r = doctor) df = []
          then (not_available_at_message validated_new_date doctor, file, [])
          else
            let (cancel_result, file1) =
                  cancel_appointment validated_old_date validated_id doctor file
            in if sublist ''No appointment found'' cancel_result
               then (cancel_result, file1, [''cancel_appointment''])
               else
                 let (set_result, file2) =
                       set_appointment validated_new_date validated_id doctor file1
                 in (if sublist ''successfully booked'' set_result
                     then rescheduled_message validated_old_date validated_new_date doctor
                     else set_result,
                     file2, [''cancel_appointment'', ''set_appointment''])))))"

subsection \<open>\<^verbatim>\<open>check_availability_by_doctor\<close>\<close>

text \<open>
  The exceptions that the bodies of the tools catch with \<^verbatim>\<open>except Exception\<close>, each with
  the text that \<^verbatim>\<open>str(e)\<close> gives.
\<close>

datatype py_exn = ValueError string | TypeError string

fun str_exn :: "py_exn \<Rightarrow> string" where
  "str_exn (ValueError txt) = txt"
| "str_exn (TypeError txt) = txt"

text \<open>
  The columns \<^verbatim>\<open>date_only\<close> and \<^verbatim>\<open>time_only\<close> that the queries add to the frame in memory:
  the first and the second piece of \<^verbatim>\<open>date_slot\<close> split at the blanks. The second piece
  is missing (a NaN) when \<^verbatim>\<open>date_slot\<close> has no blank.
\<close>

definition date_only :: "slot \<Rightarrow> string" where
  "date_only r = (case split_on (CHR '' '') (date_slot r) of [] \<Rightarrow> [] | d # _ \<Rightarrow> d)"

definition time_only :: "slot \<Rightarrow> string option" where
  "time_only r = (case split_on (CHR '' '') (date_slot r) of
                    _ # t # _ \<Rightarrow> Some t | _ \<Rightarrow> None)"

text \<open>\<^verbatim>\<open>', '.join(xs)\<close> on a column: a NaN among the strings is a \<^verbatim>\<open>TypeError\<close>.\<close>

definition join_column :: "string \<Rightarrow> string option list \<Rightarrow> py_exn + string" where
  "join_column sep xs =
     (if list_all (\<lambda>x. x \<noteq> None) xs
      then Inr (join sep (concat (map (\<lambda>x. case x of None \<Rightarrow> [] | Some s \<Rightarrow> [s]) xs)))
      else Inl (TypeError (''sequence item '' @
                  str_nat (length (takeWhile (\<lambda>x. x \<noteq> None) xs)) @
                  '': expected str instance, float found'')))"

definition check_availability_by_doctor :: "string \<Rightarrow> string \<Rightarrow> store \<Rightarrow> string \<times> store" where
  "check_availability_by_doctor desired_date doctor file =
     (let doctor' = strip (lower doctor)
      in if doctor' \<notin> set valid_doctors
         then (''Invalid doctor name: '' @ [CHR 0x27] @ doctor' @ [CHR 0x27] @
               ''. Valid doctors are: '' @ join '', '' valid_doctors, file)
         else
     (case DateModel desired_date of
        None \<Rightarrow> (''Invalid date format: '' @ str_ValidationError ''DateModel'' @
                 ''. Please use DD-MM-YYYY format (e.g., 08-08-2024)'', file)
      | Some validated_date \<Rightarrow>
     (case file of
        None \<Rightarrow> (''Error: data/doctor_availability.csv file not found'', file)
      | Some df \<Rightarrow>
          let rows = filter (\<lambda>r. date_only r = validated_date \<and> doctor_name r = doctor' \<and>
                                 is_available r) df
          in if rows = []
             then
               (if filter (\<lambda>r. date_only r = validated_date \<and> doctor_name r = doctor') df \<noteq> []
                then (''Dr. '' @ title doctor' @ '' has no available slots on '' @
                      validated_date @ ''. All slots are booked.'', file)
                else (''Dr. '' @ title doctor' @ '' is not available on '' @
                      validated_date @ ''.'', file))
             else
               (case join_column '', '' (map time_only rows) of
                  Inl e \<Rightarrow> (''Error checking availability: '' @ str_exn e, file)
                | Inr available_times \<Rightarrow>
                    (''Availability for Dr. '' @ title doctor' @ '' on '' @ validated_date @
                     '':'' @ [newline] @ ''Available slots: '' @ available_times, file)))))"

subsection \<open>\<^verbatim>\<open>check_availability_by_specialization\<close>\<close>

definition invalid_literal :: "string \<Rightarrow> py_exn" where
  "invalid_literal s =
     ValueError (''invalid literal for int() with base 10: '' @ [CHR 0x27] @ s @ [CHR 0x27])"

text \<open>
  \<^verbatim>\<open>hours, minutes = map(int, parts)\<close>: the pieces are converted one by one while the
  two names are filled, and a third piece is converted before the count is found wrong.
\<close>

definition unpack_hours_minutes :: "string list \<Rightarrow> py_exn + int \<times> int" where
  "unpack_hours_minutes parts =
     (case parts of
        [] \<Rightarrow> Inl (ValueError ''not enough values to unpack (expected 2, got 0)'')
      | [a] \<Rightarrow>
          (case py_int a of
             None \<Rightarrow> Inl (invalid_literal a)
           | Some h \<Rightarrow> Inl (ValueError ''not enough values to unpack (expected 2, got 1)''))
      | a # b # rest \<Rightarrow>
          (case py_int a of
             None \<Rightarrow> Inl (invalid_literal a)
           | Some h \<Rightarrow>
          (case py_int b of
             None \<Rightarrow> Inl (invalid_literal b)
           | Some m \<Rightarrow>
          (case rest of
             [] \<Rightarrow> Inr (h, m)
           | c # _ \<Rightarrow>
               (case py_int c of
                  None \<Rightarrow> Inl (invalid_literal c)
                | Some _ \<Rightarrow> Inl (ValueError ''too many values to unpack (expected 2)''))))))"

definition convert_to_am_pm :: "string \<Rightarrow> py_exn + string" where
  "convert_to_am_pm time_str =
     (case unpack_hours_minutes (split_on (CHR '':'') time_str) of
        Inl e \<Rightarrow> Inl e
      | Inr (hours, minutes) \<Rightarrow>
          let period = (if hours < 12 then ''AM'' else ''PM'');
              hours' = (if hours mod 12 = 0 then 12 else hours mod 12)
          in Inr (str_int hours' @ '':'' @ fmt_02d minutes @ '' '' @ period))"

text \<open>The first error of a list of results, or all the values.\<close>

fun collect :: "('e + 'a) list \<Rightarrow> 'e + 'a list" where
  "collect [] = Inr []"
| "collect (Inl e # _) = Inl e"
| "collect (Inr x # xs) = (case collect xs of Inl e \<Rightarrow> Inl e | Inr ys \<Rightarrow> Inr (x # ys))"

text \<open>\<^verbatim>\<open>str(time)\<close> of a cell of \<^verbatim>\<open>time_only\<close>.\<close>

definition str_cell :: "string option \<Rightarrow> string" where
  "str_cell x = (case x of None \<Rightarrow> ''nan'' | Some s \<Rightarrow> s)"

text \<open>
  One block of the answer per doctor, the doctors in the sorted order of
  \<^verbatim>\<open>groupby('doctor_name')\<close>, each with the times of the doctor's rows in file order.
\<close>

definition doctor_block :: "data_frame \<Rightarrow> string \<Rightarrow> py_exn + string" where
  "doctor_block filtered_df doctor =
     (case collect (map (\<lambda>r. convert_to_am_pm (str_cell (time_only r)))
                     (filter (\<lambda>r. doctor_name r = doctor) filtered_df)) of
        Inl e \<Rightarrow> Inl e
      | Inr slots \<Rightarrow>
          Inr (''Dr. '' @ title doctor @ '':'' @ [newline] @ join '', '' slots @
               [newline, newline]))"

definition check_availability_by_specialization ::
  "string \<Rightarrow> string \<Rightarrow> store \<Rightarrow> string \<times> store" where
  "check_availability_by_specialization desired_date spec file =
     (case DateModel desired_date of
        None \<Rightarrow> (''Invalid date format: '' @ str_ValidationError ''DateModel'' @
                 ''. Please use DD-MM-YYYY format (e.g., 08-08-2024)'', file)
      | Some validated_date \<Rightarrow>
     (case file of
        None \<Rightarrow> (''Error: doctor_availability.csv file not found'', file)
      | Some df \<Rightarrow>
          let filtered_df = filter (\<lambda>r. date_only r = validated_date \<and>
                                        specialization r = spec \<and> is_available r) df
          in if filtered_df = []
             then
               (if filter (\<lambda>r. date_only r = validated_date \<and> specialization r = spec) df \<noteq> []
                then (''No available slots for '' @ replace_char (CHR ''_'') (CHR '' '') spec @
                      '' on '' @ validated_date @ ''. All slots are booked.'', file)
                else (''No '' @ replace_char (CHR ''_'') (CHR '' '') spec @
                      '' appointments available on '' @ validated_date @
                      ''. Please try another date.'', file))
             else
               (case collect (map (doctor_block filtered_df)
                               (sort (remdups (map doctor_name filtered_df)))) of
                  Inl e \<Rightarrow> (''Error checking availability: '' @ str_exn e, file)
                | Inr blocks \<Rightarrow>
                    (strip (''Available '' @ replace_char (CHR ''_'') (CHR '' '') spec @
                            '' appointments on '' @ validated_date @ '':'' @
                            [newline, newline] @ concat blocks), file))))"

section \<open>Time extraction of the booking handler (agent.py)\<close>

text \<open>
  \<^verbatim>\<open>re.search(r'(\d{1,2}):(\d{2})\s*(AM|PM)', availability_info, re.IGNORECASE)\<close>.
  \<open>match_tail\<close> matches what follows the hour at the start of a text, \<open>match_time_at\<close>
  the whole pattern at the start of a text (two digits for the hour first, then one),
  \<open>search_time\<close> tries every start from the left. A match is its three groups.
\<close>

definition match_tail :: "string \<Rightarrow> string \<Rightarrow> (string \<times> string \<times> string) option" where
  "match_tail hour s =
     (case s of
        c # m1 # m2 # r \<Rightarrow>
          if c = CHR '':'' \<and> is_digit m1 \<and> is_digit m2
          then (case dropWhile is_space r of
                  p1 # p2 # _ \<Rightarrow>
                    if (upper_char p1 = CHR ''A'' \<or> upper_char p1 = CHR ''P'') \<and>
                       upper_char p2 = CHR ''M''
                    then Some (hour, [m1, m2], [p1, p2]) else None
                | _ \<Rightarrow> None)
          else None
      | _ \<Rightarrow> None)"

definition match_time_at :: "string \<Rightarrow> (string \<times> string \<times> string) option" where
  "match_time_at s =
     (case s of
        d1 # d2 # r \<Rightarrow>
          if is_digit d1 \<and> is_digit d2
          then (case match_tail [d1, d2] r of
                  Some m \<Rightarrow> Some m
                | None \<Rightarrow> match_tail [d1] (d2 # r))
          else if is_digit d1 then match_tail [d1] (d2 # r)
          else None
      | _ \<Rightarrow> None)"

fun search_time :: "string \<Rightarrow> (string \<times> string \<times> string) option" where
  "search_time [] = None"
| "search_time (c # cs) =
     (case match_time_at (c # cs) of
        Some m \<Rightarrow> Some m
      | None \<Rightarrow> search_time cs)"

text \<open>
  The lines of \<^verbatim>\<open>booking_node\<close> that compute \<^verbatim>\<open>extracted_time\<close>; \<^verbatim>\<open>int\<close> is applied to
  the one or two digits of the first group.
\<close>

definition extracted_time :: "string \<Rightarrow> string" where
  "extracted_time availability_info =
     (case search_time availability_info of
        None \<Rightarrow> ''''
      | Some (g1, minute, g3) \<Rightarrow>
          let hour = int (digits_val g1);
              period = map upper_char g3;
              hour' = (if period = ''PM'' \<and> hour \<noteq> 12 then hour + 12
                       else if period = ''AM'' \<and> hour = 12 then 0
                       else hour)
          in fmt_02d hour' @ '':'' @ minute)"

text \<open>Sample turns, states and models for the concrete instances below.\<close>

definition info_turn :: "string \<Rightarrow> message" where
  "info_turn txt = \<lparr>content = txt, name = Some ''information_node'', is_ai = True\<rparr>"

definition booking_turn :: "string \<Rightarrow> message" where
  "booking_turn txt = \<lparr>content = txt, name = Some ''booking_node'', is_ai = True\<rparr>"

definition user_turn :: "string \<Rightarrow> message" where
  "user_turn txt = \<lparr>content = txt, name = None, is_ai = False\<rparr>"

definition state_of :: "message list \<Rightarrow> agent_state" where
  "state_of ms = \<lparr>messages = ms, id_number = 1000082, state_next = '''', query = '''',
                  current_reasoning = ''''\<rparr>"

definition always_information :: llm where
  "always_information chat = Some (''information_node'', ''check again'')"

definition failing_model :: llm where
  "failing_model chat = None"

definition seeded_slot :: slot where
  "seeded_slot = \<lparr>doctor_name = ''emily johnson'', specialization = ''general_dentist'',
                   date_slot = ''08-08-2024 20:00'', is_available = True,
                   patient_to_attend = None\<rparr>"

definition booked_slot :: slot where
  "booked_slot = \<lparr>doctor_name = ''emily johnson'', specialization = ''general_dentist'',
                   date_slot = ''08-08-2024 20:00'', is_available = False,
                   patient_to_attend = Some 1000082\<rparr>"

definition later_slot :: slot where
  "later_slot = \<lparr>doctor_name = ''emily johnson'', specialization = ''general_dentist'',
                  date_slot = ''09-08-2024 10:30'', is_available = True,
                  patient_to_attend = None\<rparr>"

definition later_booked_slot :: slot where
  "later_booked_slot = \<lparr>doctor_name = ''emily johnson'', specialization = ''general_dentist'',
                         date_slot = ''09-08-2024 10:30'', is_available = False,
                         patient_to_attend = Some 1000082\<rparr>"

section \<open>The supervisor\<close>

lemma first_msg_nonempty:
  "messages state \<noteq> [] \<Longrightarrow> first_msg state = lower (content (hd (messages state)))"
  by (cases "messages state") (simp_all add: first_msg_def)

lemma to_command_goto:
  "goto (to_command (g, r)) = (if g = ''FINISH'' then END else g)"
  by (simp add: to_command_def Let_def)

lemma fallback_nonempty_returns:
  "messages state \<noteq> [] \<Longrightarrow>
   \<exists>g r. fallback state = Inr (g, r) \<and> g \<in> {''information_node'', ''booking_node'', ''FINISH''}"
  by (simp add: fallback_def Let_def)

text \<open>
  With at least one message in the log, a failed structured decision never leaves the
  supervisor: the step returns the command of the fallback, which goes to one of the two
  handlers or to the end.
\<close>

lemma supervisor_node_fallback_returns:
  assumes "messages state \<noteq> []"
    and "with_structured_output_invoke model
           (chat_of system_prompt state (last (messages state))) = None"
  shows "\<exists>c. supervisor_node system_prompt model state = Inr c \<and>
             goto c \<in> {''information_node'', ''booking_node'', END}"
proof (cases "info_calls state + booking_calls state \<ge> 6")
  case True
  then show ?thesis by (simp add: supervisor_node_def)
next
  case False
  from fallback_nonempty_returns [OF assms(1)] obtain g r
    where fb: "fallback state = Inr (g, r)"
      and g: "g \<in> {''information_node'', ''booking_node'', ''FINISH''}" by blast
  from False assms fb have "supervisor_node system_prompt model state = Inr (to_command (g, r))"
    by (simp add: supervisor_node_def)
  moreover from g have "goto (to_command (g, r)) \<in> {''information_node'', ''booking_node'', END}"
    by (auto simp: to_command_goto)
  ultimately show ?thesis by blast
qed

text \<open>
  C1. Once the messages tagged \<^verbatim>\<open>information_node\<close> and those tagged \<^verbatim>\<open>booking_node\<close>
  number six or more together, the supervisor step goes to the end with the rationale
  \<^verbatim>\<open>Maximum iterations reached\<close>, whatever the messages say and whatever the language
  model would answer: the result does not depend on the model.
\<close>

theorem supervisor_loop_guard:
  assumes "info_calls state + booking_calls state \<ge> 6"
  shows "supervisor_node system_prompt model state =
           Inr \<lparr>goto = END, update_next = ''FINISH'',
                update_current_reasoning = ''Maximum iterations reached''\<rparr>"
  using assms by (simp add: supervisor_node_def)

theorem supervisor_loop_guard_witness:
  "info_calls (state_of (user_turn ''check'' # replicate 3 (info_turn ''slot available'') @
                  replicate 3 (booking_turn ''error''))) +
   booking_calls (state_of (user_turn ''check'' # replicate 3 (info_turn ''slot available'') @
                  replicate 3 (booking_turn ''error''))) \<ge> 6 \<and>
   supervisor_node '''' always_information
     (state_of (user_turn ''check'' # replicate 3 (info_turn ''slot available'') @
                  replicate 3 (booking_turn ''error''))) =
     Inr \<lparr>goto = END, update_next = ''FINISH'',
          update_current_reasoning = ''Maximum iterations reached''\<rparr>"
proof -
  let ?s = "state_of (user_turn ''check'' # replicate 3 (info_turn ''slot available'') @
                  replicate 3 (booking_turn ''error''))"
  have h: "info_calls ?s + booking_calls ?s \<ge> 6"
    by (simp add: info_calls_def booking_calls_def state_of_def user_turn_def info_turn_def
        booking_turn_def numeral_3_eq_3)
  from h supervisor_loop_guard [OF h, of "''''" always_information] show ?thesis by simp
qed

text \<open>
  C2. A failed structured decision is to be absorbed by the supervisor step, which then
  returns the routing of the fallback and never raises. The step does so on every log
  that holds a message (\<open>supervisor_node_fallback_returns\<close>). On the empty log it raises:
  the prompt reads \<^verbatim>\<open>state['messages'][-1]\<close> outside the \<^verbatim>\<open>try\<close>, and the fallback
  reads it again, although the next line of the fallback guards the first message with
  \<^verbatim>\<open>if state['messages'] else ""\<close>.
\<close>

theorem supervisor_node_empty_log_raises:
  "supervisor_node '''' failing_model (state_of []) = Inl IndexError \<and>
   fallback (state_of []) = Inl IndexError \<and>
   first_msg (state_of []) = ''''"
  by (simp add: supervisor_node_def fallback_def first_msg_def state_of_def info_calls_def
      booking_calls_def)



text \<open>
  C4. The last message comes from the information handler. The fallback reads it in lower
  case. The positive cue is \<^verbatim>\<open>available\<close> or \<^verbatim>\<open>slot\<close>, the negative cue
  \<^verbatim>\<open>no available\<close> or \<^verbatim>\<open>not available\<close>. A positive cue without a negative one goes
  to booking; a negative cue finishes; with neither cue, the fallback goes to booking when
  the first message has both \<^verbatim>\<open>check\<close> and \<^verbatim>\<open>book\<close> and no booking turn is in the
  log, and finishes otherwise. Whenever the supervisor consults the primary decision (the
  cap is not reached) and that decision fails, the step returns this decision, with
  \<^verbatim>\<open>FINISH\<close> as the end of the loop.
\<close>

theorem fallback_after_information:
  assumes "messages state \<noteq> []"
    and "name (last (messages state)) = Some ''information_node''"
  shows "\<exists>g r. fallback state = Inr (g, r) \<and>
           g =
            (let last_content = lower (content (last (messages state)));
                 positive = (sublist ''available'' last_content \<or> sublist ''slot'' last_content);
                 negative = (sublist ''no available'' last_content \<or>
                             sublist ''not available'' last_content);
                 first_content = lower (content (hd (messages state)))
             in if positive \<and> \<not> negative then ''booking_node''
                else if negative then ''FINISH''
                else if (sublist ''check'' first_content \<and> sublist ''book'' first_content) \<and>
                        booking_calls state = 0
                then ''booking_node''
                else ''FINISH'') \<and>
           (info_calls state + booking_calls state < 6 \<and>
            with_structured_output_invoke model
              (chat_of system_prompt state (last (messages state))) = None \<longrightarrow>
            (\<exists>c. supervisor_node system_prompt model state = Inr c \<and>
                 goto c = (if g = ''FINISH'' then END else g)))"
proof -
  have fm: "first_msg state = lower (content (hd (messages state)))"
    using assms(1) by (rule first_msg_nonempty)
  define decision where "decision =
     (if (sublist ''available'' (lower (content (last (messages state)))) \<or>
          sublist ''slot'' (lower (content (last (messages state))))) \<and>
         \<not> (sublist ''no available'' (lower (content (last (messages state)))) \<or>
            sublist ''not available'' (lower (content (last (messages state)))))
      then (''booking_node'', ''Fallback: availability confirmed, routing to booking'')
      else if sublist ''no available'' (lower (content (last (messages state)))) \<or>
              sublist ''not available'' (lower (content (last (messages state))))
      then (''FINISH'', ''Fallback: no availability found'')
      else if (sublist ''check'' (lower (content (hd (messages state)))) \<and>
               sublist ''book'' (lower (content (hd (messages state))))) \<and>
              booking_calls state = 0
      then (''booking_node'', ''Fallback: proceeding to booking as requested'')
      else (''FINISH'', ''Fallback: information provided''))"
  have fb: "fallback state = Inr (fst decision, snd decision)"
    using assms unfolding decision_def
    by (simp add: fallback_def is_check_and_book_def fm Let_def)
  define g where "g = fst decision"
  define r where "r = snd decision"
  have fb: "fallback state = Inr (g, r)"
    unfolding g_def r_def by (rule fb)
  have g: "g =
            (let last_content = lower (content (last (messages state)));
                 positive = (sublist ''available'' last_content \<or> sublist ''slot'' last_content);
                 negative = (sublist ''no available'' last_content \<or>
                             sublist ''not available'' last_content);
                 first_content = lower (content (hd (messages state)))
             in if positive \<and> \<not> negative then ''booking_node''
                else if negative then ''FINISH''
                else if (sublist ''check'' first_content \<and> sublist ''book'' first_content) \<and>
                        booking_calls state = 0
                then ''booking_node''
                else ''FINISH'')"
    unfolding g_def decision_def Let_def by (simp only: if_distrib [of fst] fst_conv)
  have sup: "\<exists>c. supervisor_node system_prompt model state = Inr c \<and>
                 goto c = (if g = ''FINISH'' then END else g)"
    if "info_calls state + booking_calls state < 6"
      and "with_structured_output_invoke model
             (chat_of system_prompt state (last (messages state))) = None"
  proof -
    from that assms(1) fb
    have "supervisor_node system_prompt model state = Inr (to_command (g, r))"
      by (simp add: supervisor_node_def)
    then show ?thesis
      by (simp add: to_command_goto)
  qed
  have "fallback state = Inr (g, r) \<and>
        g =
            (let last_content = lower (content (last (messages state)));
                 positive = (sublist ''available'' last_content \<or> sublist ''slot'' last_content);
                 negative = (sublist ''no available'' last_content \<or>
                             sublist ''not available'' last_content);
                 first_content = lower (content (hd (messages state)))
             in if positive \<and> \<not> negative then ''booking_node''
                else if negative then ''FINISH''
                else if (sublist ''check'' first_content \<and> sublist ''book'' first_content) \<and>
                        booking_calls state = 0
                then ''booking_node''
                else ''FINISH'') \<and>
        (info_calls state + booking_calls state < 6 \<and>
         with_structured_output_invoke model
           (chat_of system_prompt state (last (messages state))) = None \<longrightarrow>
         (\<exists>c. supervisor_node system_prompt model state = Inr c \<and>
              goto c = (if g = ''FINISH'' then END else g)))"
  proof (intro conjI impI)
    show "fallback state = Inr (g, r)" by (rule fb)
    show "g =
            (let last_content = lower (content (last (messages state)));
                 positive = (sublist ''available'' last_content \<or> sublist ''slot'' last_content);
                 negative = (sublist ''no available'' last_content \<or>
                             sublist ''not available'' last_content);
                 first_content = lower (content (hd (messages state)))
             in if positive \<and> \<not> negative then ''booking_node''
                else if negative then ''FINISH''
                else if (sublist ''check'' first_content \<and> sublist ''book'' first_content) \<and>
                        booking_calls state = 0
                then ''booking_node''
                else ''FINISH'')"
      by (rule g)
    assume a: "info_calls state + booking_calls state < 6 \<and>
               with_structured_output_invoke model
                 (chat_of system_prompt state (last (messages state))) = None"
    show "\<exists>c. supervisor_node system_prompt model state = Inr c \<and>
              goto c = (if g = ''FINISH'' then END else g)"
      by (rule sup [OF conjunct1 [OF a] conjunct2 [OF a]])
  qed
  then show ?thesis
    by - (rule exI [of _ g], rule exI [of _ r], assumption)
qed

theorem fallback_after_information_witness:
  "messages (state_of [user_turn ''check and book'', info_turn ''Slot at 8:00 PM'']) \<noteq> [] \<and>
   name (last (messages (state_of [user_turn ''check and book'', info_turn ''Slot at 8:00 PM''])))
     = Some ''information_node'' \<and>
   info_calls (state_of [user_turn ''check and book'', info_turn ''Slot at 8:00 PM'']) +
   booking_calls (state_of [user_turn ''check and book'', info_turn ''Slot at 8:00 PM'']) < 6 \<and>
   with_structured_output_invoke failing_model
     (chat_of '''' (state_of [user_turn ''check and book'', info_turn ''Slot at 8:00 PM''])
        (last (messages (state_of [user_turn ''check and book'', info_turn ''Slot at 8:00 PM'']))))
     = None \<and>
   (\<exists>r. fallback (state_of [user_turn ''check and book'', info_turn ''Slot at 8:00 PM'']) =
          Inr (''booking_node'', r)) \<and>
   (\<exists>c. supervisor_node '''' failing_model
           (state_of [user_turn ''check and book'', info_turn ''Slot at 8:00 PM'']) = Inr c \<and>
        goto c = ''booking_node'')"
proof -
  let ?s = "state_of [user_turn ''check and book'', info_turn ''Slot at 8:00 PM'']"
  have h1: "messages ?s \<noteq> []"
    by (simp add: state_of_def)
  have h2: "name (last (messages ?s)) = Some ''information_node''"
    by (simp add: state_of_def info_turn_def)
  have h3: "info_calls ?s + booking_calls ?s < 6"
    by (simp add: info_calls_def booking_calls_def state_of_def user_turn_def info_turn_def)
  have h4: "with_structured_output_invoke failing_model
              (chat_of '''' ?s (last (messages ?s))) = None"
    by (simp add: with_structured_output_invoke_def failing_model_def)
  have lc: "lower (content (last (messages ?s))) = ''slot at 8:00 pm''"
    by (simp add: state_of_def info_turn_def lower_def lower_char_def ascii_uppercase_def
        ascii_lowercase_def)
  have pos: "sublist ''slot'' ''slot at 8:00 pm''"
    by (simp add: sublist_code)
  have neg1: "\<not> sublist ''no available'' ''slot at 8:00 pm''"
    by (simp add: sublist_code)
  have neg2: "\<not> sublist ''not available'' ''slot at 8:00 pm''"
    by (simp add: sublist_code)
  from fallback_after_information [OF h1 h2, of failing_model "''''"]
  obtain g r where fb: "fallback ?s = Inr (g, r)"
    and g: "g = (let last_content = lower (content (last (messages ?s)));
                     positive = (sublist ''available'' last_content \<or>
                                 sublist ''slot'' last_content);
                     negative = (sublist ''no available'' last_content \<or>
                                 sublist ''not available'' last_content);
                     first_content = lower (content (hd (messages ?s)))
                 in if positive \<and> \<not> negative then ''booking_node''
                    else if negative then ''FINISH''
                    else if (sublist ''check'' first_content \<and> sublist ''book'' first_content) \<and>
                            booking_calls ?s = 0
                    then ''booking_node''
                    else ''FINISH'')"
    and sup: "info_calls ?s + booking_calls ?s < 6 \<and>
              with_structured_output_invoke failing_model
                (chat_of '''' ?s (last (messages ?s))) = None \<longrightarrow>
              (\<exists>c. supervisor_node '''' failing_model ?s = Inr c \<and>
                   goto c = (if g = ''FINISH'' then END else g))"
    by blast
  from g have g': "g = ''booking_node''"
    unfolding lc Let_def using pos neg1 neg2 by simp
  from sup h3 h4 g'
  have "\<exists>c. supervisor_node '''' failing_model ?s = Inr c \<and> goto c = ''booking_node''"
    by simp
  moreover from fb g' have "\<exists>r. fallback ?s = Inr (''booking_node'', r)"
    by simp
  ultimately show ?thesis
    using h1 h2 h3 h4 by blast
qed

section \<open>The booking tools\<close>

lemma DateTimeModel_valid: "DateTimeModel d \<noteq> None \<Longrightarrow> DateTimeModel d = Some d"
  by (simp add: DateTimeModel_def split: if_splits)

lemma IdentificationNumberModel_valid:
  "IdentificationNumberModel i \<noteq> None \<Longrightarrow> IdentificationNumberModel i = Some i"
  by (simp add: IdentificationNumberModel_def split: if_splits)

lemma set_appointment_valid:
  assumes "DateTimeModel d \<noteq> None" and "IdentificationNumberModel i \<noteq> None"
  shows "set_appointment d i doc (Some df) =
     (if filter (\<lambda>r. date_slot r = d \<and> doctor_name r = doc \<and> is_available r) df = []
      then (if filter (\<lambda>r. date_slot r = d \<and> doctor_name r = doc) df = []
            then (no_slot_message d doc, Some df)
            else (already_booked_message d doc, Some df))
      else (booked_message d i doc,
            Some (map (\<lambda>r. if date_slot r = d \<and> doctor_name r = doc \<and> is_available r
                            then r\<lparr>is_available := False, patient_to_attend := Some i\<rparr>
                            else r) df)))"
  by (simp add: set_appointment_def DateTimeModel_valid [OF assms(1)]
      IdentificationNumberModel_valid [OF assms(2)])

lemma booked_message_head: "hd (booked_message d i doc) = CHR 0xE2"
  by (simp add: booked_message_def check_mark_def)

lemma already_booked_message_head: "hd (already_booked_message d doc) = CHR ''T''"
  by (simp add: already_booked_message_def)

lemma sample_inputs_valid:
  "DateTimeModel ''08-08-2024 20:00'' \<noteq> None"
  "DateTimeModel ''09-08-2024 10:30'' \<noteq> None"
  "IdentificationNumberModel 1000082 \<noteq> None"
  by (simp_all add: DateTimeModel_def IdentificationNumberModel_def is_digit_def)

text \<open>
  C5. \<^verbatim>\<open>set_appointment\<close> on valid inputs and a store that exists. If a row for the
  doctor and date-time is available, the call reports the booking, and the new store has
  the same rows except that every available row for the doctor and date-time is now
  unavailable with the requested patient id; the same call on the new store reports
  \<^verbatim>\<open>already booked\<close> and leaves it as it is. If rows for the doctor and date-time exist
  and none is available, the call reports \<^verbatim>\<open>already booked\<close>; if there is no such row,
  it reports that no slot exists; the store is unchanged in both cases. The
  \<^verbatim>\<open>already booked\<close> text is never the success text.
\<close>

theorem set_appointment_outcomes:
  assumes "DateTimeModel d \<noteq> None" and "IdentificationNumberModel i \<noteq> None"
  shows "((\<exists>r \<in> set df. date_slot r = d \<and> doctor_name r = doc \<and> is_available r) \<longrightarrow>
            (\<exists>df'. set_appointment d i doc (Some df) = (booked_message d i doc, Some df') \<and>
                   length df' = length df \<and>
                   (\<forall>k < length df.
                      df' ! k =
                        (if date_slot (df ! k) = d \<and> doctor_name (df ! k) = doc \<and>
                            is_available (df ! k)
                         then (df ! k)\<lparr>is_available := False, patient_to_attend := Some i\<rparr>
                         else df ! k)) \<and>
                   set_appointment d i doc (Some df') = (already_booked_message d doc, Some df'))) \<and>
         ((\<exists>r \<in> set df. date_slot r = d \<and> doctor_name r = doc) \<and>
          \<not> (\<exists>r \<in> set df. date_slot r = d \<and> doctor_name r = doc \<and> is_available r) \<longrightarrow>
            set_appointment d i doc (Some df) = (already_booked_message d doc, Some df)) \<and>
         (\<not> (\<exists>r \<in> set df. date_slot r = d \<and> doctor_name r = doc) \<longrightarrow>
            set_appointment d i doc (Some df) = (no_slot_message d doc, Some df)) \<and>
         already_booked_message d doc \<noteq> booked_message d i doc"
proof -
  define hit where "hit = (\<lambda>r::slot. date_slot r = d \<and> doctor_name r = doc \<and> is_available r)"
  define key where "key = (\<lambda>r::slot. date_slot r = d \<and> doctor_name r = doc)"
  define upd where "upd = (\<lambda>r::slot. if date_slot r = d \<and> doctor_name r = doc \<and> is_available r
                                 then r\<lparr>is_available := False, patient_to_attend := Some i\<rparr>
                                 else r)"
  have sv: "set_appointment d i doc (Some xs) =
     (if filter hit xs = []
      then (if filter key xs = [] then (no_slot_message d doc, Some xs)
            else (already_booked_message d doc, Some xs))
      else (booked_message d i doc, Some (map upd xs)))" for xs
    unfolding hit_def key_def upd_def by (rule set_appointment_valid [OF assms])
  have not_hit: "\<not> hit (upd r)" for r
    unfolding hit_def upd_def
    by (cases "date_slot r = d \<and> doctor_name r = doc \<and> is_available r") simp_all
  have key_kept: "key (upd r)" if "hit r" for r
    using that unfolding hit_def key_def upd_def by simp
  have upd_nth: "map upd df ! k = upd (df ! k)" if "k < length df" for k
    using that by simp
  have first: "\<exists>df'. set_appointment d i doc (Some df) = (booked_message d i doc, Some df') \<and>
                   length df' = length df \<and>
                   (\<forall>k < length df. df' ! k = upd (df ! k)) \<and>
                   set_appointment d i doc (Some df') = (already_booked_message d doc, Some df')"
    if "\<exists>r \<in> set df. hit r"
  proof -
    from that obtain r where r: "r \<in> set df" "hit r" by blast
    then have "filter hit df \<noteq> []"
      unfolding filter_empty_conv by blast
    then have 1: "set_appointment d i doc (Some df) = (booked_message d i doc, Some (map upd df))"
      by (simp add: sv)
    have "\<forall>x \<in> set (map upd df). \<not> hit x"
      using not_hit by (simp add: image_iff)
    then have 2: "filter hit (map upd df) = []"
      unfolding filter_empty_conv .
    from r have "upd r \<in> set (map upd df)" by simp
    with key_kept [OF r(2)] have 3: "filter key (map upd df) \<noteq> []"
      unfolding filter_empty_conv by blast
    from 2 3 have 4: "set_appointment d i doc (Some (map upd df)) =
                        (already_booked_message d doc, Some (map upd df))"
      by (simp add: sv)
    from 1 4 upd_nth show ?thesis
      by (intro exI [of _ "map upd df"]) simp
  qed
  have second: "set_appointment d i doc (Some df) = (already_booked_message d doc, Some df)"
    if "\<exists>r \<in> set df. key r" and "\<not> (\<exists>r \<in> set df. hit r)"
  proof -
    from that(2) have "filter hit df = []"
      unfolding filter_empty_conv by blast
    moreover from that(1) have "filter key df \<noteq> []"
      unfolding filter_empty_conv by blast
    ultimately show ?thesis by (simp add: sv)
  qed
  have third: "set_appointment d i doc (Some df) = (no_slot_message d doc, Some df)"
    if "\<not> (\<exists>r \<in> set df. key r)"
  proof -
    from that have "filter key df = []" "filter hit df = []"
      unfolding filter_empty_conv hit_def key_def by blast+
    then show ?thesis by (simp add: sv)
  qed
  have fourth: "already_booked_message d doc \<noteq> booked_message d i doc"
    using booked_message_head [of d i doc] already_booked_message_head [of d doc] by auto
  show ?thesis
  proof (intro conjI impI)
    assume "\<exists>r \<in> set df. date_slot r = d \<and> doctor_name r = doc \<and> is_available r"
    then have "\<exists>r \<in> set df. hit r" unfolding hit_def .
    from first [OF this]
    show "\<exists>df'. set_appointment d i doc (Some df) = (booked_message d i doc, Some df') \<and>
                   length df' = length df \<and>
                   (\<forall>k < length df.
                      df' ! k =
                        (if date_slot (df ! k) = d \<and> doctor_name (df ! k) = doc \<and>
                            is_available (df ! k)
                         then (df ! k)\<lparr>is_available := False, patient_to_attend := Some i\<rparr>
                         else df ! k)) \<and>
                   set_appointment d i doc (Some df') = (already_booked_message d doc, Some df')"
      unfolding upd_def .
  next
    assume "(\<exists>r \<in> set df. date_slot r = d \<and> doctor_name r = doc) \<and>
          \<not> (\<exists>r \<in> set df. date_slot r = d \<and> doctor_name r = doc \<and> is_available r)"
    then have "\<exists>r \<in> set df. key r" "\<not> (\<exists>r \<in> set df. hit r)"
      unfolding key_def hit_def by blast+
    then show "set_appointment d i doc (Some df) = (already_booked_message d doc, Some df)"
      by (rule second)
  next
    assume "\<not> (\<exists>r \<in> set df. date_slot r = d \<and> doctor_name r = doc)"
    then have "\<not> (\<exists>r \<in> set df. key r)" unfolding key_def .
    then show "set_appointment d i doc (Some df) = (no_slot_message d doc, Some df)"
      by (rule third)
  next
    show "already_booked_message d doc \<noteq> booked_message d i doc" by (rule fourth)
  qed
qed

theorem set_appointment_outcomes_witness:
  "DateTimeModel ''08-08-2024 20:00'' \<noteq> None \<and>
   IdentificationNumberModel 1000082 \<noteq> None \<and>
   (\<exists>r \<in> set [seeded_slot]. date_slot r = ''08-08-2024 20:00'' \<and>
       doctor_name r = ''emily johnson'' \<and> is_available r) \<and>
   set_appointment ''08-08-2024 20:00'' 1000082 ''emily johnson'' (Some [seeded_slot]) =
     (booked_message ''08-08-2024 20:00'' 1000082 ''emily johnson'', Some [booked_slot]) \<and>
   (\<exists>r \<in> set [booked_slot]. date_slot r = ''08-08-2024 20:00'' \<and>
       doctor_name r = ''emily johnson'') \<and>
   \<not> (\<exists>r \<in> set [booked_slot]. date_slot r = ''08-08-2024 20:00'' \<and>
       doctor_name r = ''emily johnson'' \<and> is_available r) \<and>
   set_appointment ''08-08-2024 20:00'' 1000082 ''emily johnson'' (Some [booked_slot]) =
     (already_booked_message ''08-08-2024 20:00'' ''emily johnson'', Some [booked_slot]) \<and>
   \<not> (\<exists>r \<in> set [later_slot]. date_slot r = ''08-08-2024 20:00'' \<and>
       doctor_name r = ''emily johnson'') \<and>
   set_appointment ''08-08-2024 20:00'' 1000082 ''emily johnson'' (Some [later_slot]) =
     (no_slot_message ''08-08-2024 20:00'' ''emily johnson'', Some [later_slot])"
proof -
  note v = sample_inputs_valid(1) sample_inputs_valid(3)
  have a: "\<exists>r \<in> set [seeded_slot]. date_slot r = ''08-08-2024 20:00'' \<and>
             doctor_name r = ''emily johnson'' \<and> is_available r"
    by (simp add: seeded_slot_def)
  have b: "\<exists>r \<in> set [booked_slot]. date_slot r = ''08-08-2024 20:00'' \<and>
             doctor_name r = ''emily johnson''"
    by (simp add: booked_slot_def)
  have c: "\<not> (\<exists>r \<in> set [booked_slot]. date_slot r = ''08-08-2024 20:00'' \<and>
             doctor_name r = ''emily johnson'' \<and> is_available r)"
    by (simp add: booked_slot_def)
  have e: "\<not> (\<exists>r \<in> set [later_slot]. date_slot r = ''08-08-2024 20:00'' \<and>
             doctor_name r = ''emily johnson'')"
    by (simp add: later_slot_def)
  from set_appointment_outcomes [OF v, of "[seeded_slot]" "''emily johnson''"] a
  obtain df' where df': "set_appointment ''08-08-2024 20:00'' 1000082 ''emily johnson''
                           (Some [seeded_slot]) =
                         (booked_message ''08-08-2024 20:00'' 1000082 ''emily johnson'', Some df')"
      "length df' = length [seeded_slot]"
      "\<forall>k < length [seeded_slot]. df' ! k =
         (if date_slot ([seeded_slot] ! k) = ''08-08-2024 20:00'' \<and>
             doctor_name ([seeded_slot] ! k) = ''emily johnson'' \<and>
             is_available ([seeded_slot] ! k)
          then ([seeded_slot] ! k)\<lparr>is_available := False, patient_to_attend := Some 1000082\<rparr>
          else [seeded_slot] ! k)"
    by blast
  from df'(3) have "df' ! 0 = booked_slot"
    by (simp add: seeded_slot_def booked_slot_def)
  with df'(2) have "df' = [booked_slot]"
    by (cases df') simp_all
  with df'(1) have f: "set_appointment ''08-08-2024 20:00'' 1000082 ''emily johnson''
                         (Some [seeded_slot]) =
                       (booked_message ''08-08-2024 20:00'' 1000082 ''emily johnson'',
                        Some [booked_slot])"
    by simp
  from set_appointment_outcomes [OF v, of "[booked_slot]" "''emily johnson''"] b c
  have g: "set_appointment ''08-08-2024 20:00'' 1000082 ''emily johnson'' (Some [booked_slot]) =
             (already_booked_message ''08-08-2024 20:00'' ''emily johnson'', Some [booked_slot])"
    by blast
  from set_appointment_outcomes [OF v, of "[later_slot]" "''emily johnson''"] e
  have h: "set_appointment ''08-08-2024 20:00'' 1000082 ''emily johnson'' (Some [later_slot]) =
             (no_slot_message ''08-08-2024 20:00'' ''emily johnson'', Some [later_slot])"
    by blast
  from v a b c e f g h show ?thesis by blast
qed

lemma cancel_appointment_valid:
  assumes "DateTimeModel d \<noteq> None" and "IdentificationNumberModel i \<noteq> None"
  shows "cancel_appointment d i doc (Some df) =
     (if filter (\<lambda>r. date_slot r = d \<and> patient_to_attend r = Some i \<and> doctor_name r = doc) df = []
      then (no_appointment_found_message d i doc, Some df)
      else (cancelled_message d i doc,
            Some (map (\<lambda>r. if date_slot r = d \<and> patient_to_attend r = Some i \<and>
                               doctor_name r = doc
                            then r\<lparr>is_available := True, patient_to_attend := None\<rparr>
                            else r) df)))"
  by (simp add: cancel_appointment_def DateTimeModel_valid [OF assms(1)]
      IdentificationNumberModel_valid [OF assms(2)])

lemma cancelled_message_head: "hd (cancelled_message d i doc) = CHR 0xE2"
  by (simp add: cancelled_message_def check_mark_def)

lemma no_appointment_found_message_head: "hd (no_appointment_found_message d i doc) = CHR ''N''"
  by (simp add: no_appointment_found_message_def)

text \<open>
  C6. \<^verbatim>\<open>cancel_appointment\<close> on valid inputs and a store that exists. If a row for the
  doctor and date-time is assigned to the patient id, the call reports the cancellation,
  and the new store has the same rows except that every such row is now available with no
  patient. In every other case (no row for the doctor and date-time, or none of them
  assigned to this id, unassigned rows included) the call reports that no appointment was
  found and the store is unchanged. The two texts differ.
\<close>

theorem cancel_appointment_outcomes:
  assumes "DateTimeModel d \<noteq> None" and "IdentificationNumberModel i \<noteq> None"
  shows "((\<exists>r \<in> set df. date_slot r = d \<and> doctor_name r = doc \<and> patient_to_attend r = Some i) \<longrightarrow>
            (\<exists>df'. cancel_appointment d i doc (Some df) = (cancelled_message d i doc, Some df') \<and>
                   length df' = length df \<and>
                   (\<forall>k < length df.
                      df' ! k =
                        (if date_slot (df ! k) = d \<and> doctor_name (df ! k) = doc \<and>
                            patient_to_attend (df ! k) = Some i
                         then (df ! k)\<lparr>is_available := True, patient_to_attend := None\<rparr>
                         else df ! k)))) \<and>
         (\<not> (\<exists>r \<in> set df. date_slot r = d \<and> doctor_name r = doc \<and>
                 patient_to_attend r = Some i) \<longrightarrow>
            cancel_appointment d i doc (Some df) =
              (no_appointment_found_message d i doc, Some df)) \<and>
         no_appointment_found_message d i doc \<noteq> cancelled_message d i doc"
proof -
  define hit where
    "hit = (\<lambda>r::slot. date_slot r = d \<and> patient_to_attend r = Some i \<and> doctor_name r = doc)"
  define upd where
    "upd = (\<lambda>r::slot. if date_slot r = d \<and> patient_to_attend r = Some i \<and> doctor_name r = doc
                       then r\<lparr>is_available := True, patient_to_attend := None\<rparr> else r)"
  have cv: "cancel_appointment d i doc (Some df) =
     (if filter hit df = [] then (no_appointment_found_message d i doc, Some df)
      else (cancelled_message d i doc, Some (map upd df)))"
    unfolding hit_def upd_def by (rule cancel_appointment_valid [OF assms])
  have upd_alt: "upd r = (if date_slot r = d \<and> doctor_name r = doc \<and> patient_to_attend r = Some i
                          then r\<lparr>is_available := True, patient_to_attend := None\<rparr> else r)" for r
    unfolding upd_def by (rule if_cong) blast+
  have first: "\<exists>df'. cancel_appointment d i doc (Some df) = (cancelled_message d i doc, Some df') \<and>
                   length df' = length df \<and>
                   (\<forall>k < length df. df' ! k =
                     (if date_slot (df ! k) = d \<and> doctor_name (df ! k) = doc \<and>
                         patient_to_attend (df ! k) = Some i
                      then (df ! k)\<lparr>is_available := True, patient_to_attend := None\<rparr>
                      else df ! k))"
    if "\<exists>r \<in> set df. hit r"
  proof -
    from that have "filter hit df \<noteq> []"
      unfolding filter_empty_conv by blast
    then have "cancel_appointment d i doc (Some df) = (cancelled_message d i doc, Some (map upd df))"
      by (simp add: cv)
    moreover have "\<forall>k < length df. map upd df ! k =
                     (if date_slot (df ! k) = d \<and> doctor_name (df ! k) = doc \<and>
                         patient_to_attend (df ! k) = Some i
                      then (df ! k)\<lparr>is_available := True, patient_to_attend := None\<rparr>
                      else df ! k)"
      using upd_alt by simp
    ultimately show ?thesis
      by (intro exI [of _ "map upd df"]) simp
  qed
  have second: "cancel_appointment d i doc (Some df) = (no_appointment_found_message d i doc, Some df)"
    if "\<not> (\<exists>r \<in> set df. hit r)"
  proof -
    from that have "filter hit df = []"
      unfolding filter_empty_conv by blast
    then show ?thesis by (simp add: cv)
  qed
  have third: "no_appointment_found_message d i doc \<noteq> cancelled_message d i doc"
    using cancelled_message_head [of d i doc] no_appointment_found_message_head [of d i doc]
    by auto
  show ?thesis
  proof (intro conjI impI)
    assume "\<exists>r \<in> set df. date_slot r = d \<and> doctor_name r = doc \<and> patient_to_attend r = Some i"
    then have "\<exists>r \<in> set df. hit r" unfolding hit_def by blast
    then show "\<exists>df'. cancel_appointment d i doc (Some df) = (cancelled_message d i doc, Some df') \<and>
                   length df' = length df \<and>
                   (\<forall>k < length df. df' ! k =
                     (if date_slot (df ! k) = d \<and> doctor_name (df ! k) = doc \<and>
                         patient_to_attend (df ! k) = Some i
                      then (df ! k)\<lparr>is_available := True, patient_to_attend := None\<rparr>
                      else df ! k))"
      by (rule first)
  next
    assume "\<not> (\<exists>r \<in> set df. date_slot r = d \<and> doctor_name r = doc \<and>
                 patient_to_attend r = Some i)"
    then have "\<not> (\<exists>r \<in> set df. hit r)" unfolding hit_def by blast
    then show "cancel_appointment d i doc (Some df) =
                 (no_appointment_found_message d i doc, Some df)"
      by (rule second)
  next
    show "no_appointment_found_message d i doc \<noteq> cancelled_message d i doc" by (rule third)
  qed
qed

theorem cancel_appointment_outcomes_witness:
  "DateTimeModel ''08-08-2024 20:00'' \<noteq> None \<and>
   IdentificationNumberModel 1000082 \<noteq> None \<and>
   (\<exists>r \<in> set [booked_slot]. date_slot r = ''08-08-2024 20:00'' \<and>
       doctor_name r = ''emily johnson'' \<and> patient_to_attend r = Some 1000082) \<and>
   cancel_appointment ''08-08-2024 20:00'' 1000082 ''emily johnson'' (Some [booked_slot]) =
     (cancelled_message ''08-08-2024 20:00'' 1000082 ''emily johnson'', Some [seeded_slot]) \<and>
   \<not> (\<exists>r \<in> set [seeded_slot]. date_slot r = ''08-08-2024 20:00'' \<and>
       doctor_name r = ''emily johnson'' \<and> patient_to_attend r = Some 1000082) \<and>
   cancel_appointment ''08-08-2024 20:00'' 1000082 ''emily johnson'' (Some [seeded_slot]) =
     (no_appointment_found_message ''08-08-2024 20:00'' 1000082 ''emily johnson'',
      Some [seeded_slot])"
proof -
  note v = sample_inputs_valid(1) sample_inputs_valid(3)
  have a: "\<exists>r \<in> set [booked_slot]. date_slot r = ''08-08-2024 20:00'' \<and>
             doctor_name r = ''emily johnson'' \<and> patient_to_attend r = Some 1000082"
    by (simp add: booked_slot_def)
  have b: "\<not> (\<exists>r \<in> set [seeded_slot]. date_slot r = ''08-08-2024 20:00'' \<and>
             doctor_name r = ''emily johnson'' \<and> patient_to_attend r = Some 1000082)"
    by (simp add: seeded_slot_def)
  from cancel_appointment_outcomes [OF v, of "[booked_slot]" "''emily johnson''"] a
  obtain df' where df': "cancel_appointment ''08-08-2024 20:00'' 1000082 ''emily johnson''
                           (Some [booked_slot]) =
                         (cancelled_message ''08-08-2024 20:00'' 1000082 ''emily johnson'', Some df')"
      "length df' = length [booked_slot]"
      "\<forall>k < length [booked_slot]. df' ! k =
         (if date_slot ([booked_slot] ! k) = ''08-08-2024 20:00'' \<and>
             doctor_name ([booked_slot] ! k) = ''emily johnson'' \<and>
             patient_to_attend ([booked_slot] ! k) = Some 1000082
          then ([booked_slot] ! k)\<lparr>is_available := True, patient_to_attend := None\<rparr>
          else [booked_slot] ! k)"
    by blast
  from df'(3) have "df' ! 0 = seeded_slot"
    by (simp add: seeded_slot_def booked_slot_def)
  with df'(2) have "df' = [seeded_slot]"
    by (cases df') simp_all
  with df'(1) have c: "cancel_appointment ''08-08-2024 20:00'' 1000082 ''emily johnson''
                         (Some [booked_slot]) =
                       (cancelled_message ''08-08-2024 20:00'' 1000082 ''emily johnson'',
                        Some [seeded_slot])"
    by simp
  from cancel_appointment_outcomes [OF v, of "[seeded_slot]" "''emily johnson''"] b
  have e: "cancel_appointment ''08-08-2024 20:00'' 1000082 ''emily johnson'' (Some [seeded_slot]) =
             (no_appointment_found_message ''08-08-2024 20:00'' 1000082 ''emily johnson'',
              Some [seeded_slot])"
    by blast
  from v a b c e show ?thesis by blast
qed

lemma restore_row:
  "is_available (r::slot) \<Longrightarrow> patient_to_attend r = None \<Longrightarrow>
   r\<lparr>is_available := False, patient_to_attend := Some i\<rparr>
    \<lparr>is_available := True, patient_to_attend := None\<rparr> = r"
  by (cases r) simp

text \<open>
  C8. The store holds a row for the doctor and date-time that is available and
  unassigned. With valid inputs, \<^verbatim>\<open>set_appointment\<close> books it and \<^verbatim>\<open>cancel_appointment\<close>
  with the same arguments succeeds on the result. The final store has the rows of the
  first one, and each row that was available and unassigned for this doctor and
  date-time, as well as each row for another doctor or date-time, is as it was. When the
  store is keyed by doctor and date-time, as the Slot Store is (no two rows share both),
  the final store is the first one.
\<close>

theorem set_then_cancel_round_trip:
  assumes "DateTimeModel d \<noteq> None" and "IdentificationNumberModel i \<noteq> None"
    and "\<exists>r \<in> set df. date_slot r = d \<and> doctor_name r = doc \<and> is_available r \<and>
                      patient_to_attend r = None"
  shows "\<exists>df1 df2.
           set_appointment d i doc (Some df) = (booked_message d i doc, Some df1) \<and>
           cancel_appointment d i doc (Some df1) = (cancelled_message d i doc, Some df2) \<and>
           length df2 = length df \<and>
           (\<forall>k < length df.
              (date_slot (df ! k) = d \<and> doctor_name (df ! k) = doc \<longrightarrow>
                 is_available (df ! k) \<and> patient_to_attend (df ! k) = None)
              \<longrightarrow> df2 ! k = df ! k) \<and>
           (distinct (map (\<lambda>r. (doctor_name r, date_slot r)) df) \<longrightarrow> df2 = df)"
proof -
  define s_hit where
    "s_hit = (\<lambda>r::slot. date_slot r = d \<and> doctor_name r = doc \<and> is_available r)"
  define s_key where "s_key = (\<lambda>r::slot. date_slot r = d \<and> doctor_name r = doc)"
  define s_upd where
    "s_upd = (\<lambda>r::slot. if date_slot r = d \<and> doctor_name r = doc \<and> is_available r
                         then r\<lparr>is_available := False, patient_to_attend := Some i\<rparr> else r)"
  define c_hit where
    "c_hit = (\<lambda>r::slot. date_slot r = d \<and> patient_to_attend r = Some i \<and> doctor_name r = doc)"
  define c_upd where
    "c_upd = (\<lambda>r::slot. if date_slot r = d \<and> patient_to_attend r = Some i \<and> doctor_name r = doc
                         then r\<lparr>is_available := True, patient_to_attend := None\<rparr> else r)"
  have sv: "set_appointment d i doc (Some xs) =
     (if filter s_hit xs = []
      then (if filter s_key xs = [] then (no_slot_message d doc, Some xs)
            else (already_booked_message d doc, Some xs))
      else (booked_message d i doc, Some (map s_upd xs)))" for xs
    unfolding s_hit_def s_key_def s_upd_def by (rule set_appointment_valid [OF assms(1,2)])
  have cv: "cancel_appointment d i doc (Some xs) =
     (if filter c_hit xs = [] then (no_appointment_found_message d i doc, Some xs)
      else (cancelled_message d i doc, Some (map c_upd xs)))" for xs
    unfolding c_hit_def c_upd_def by (rule cancel_appointment_valid [OF assms(1,2)])
  from assms(3) obtain r0 where r0: "r0 \<in> set df" "date_slot r0 = d" "doctor_name r0 = doc"
      "is_available r0" "patient_to_attend r0 = None"
    by blast
  have "s_hit r0" using r0 unfolding s_hit_def by simp
  with r0(1) have "filter s_hit df \<noteq> []"
    unfolding filter_empty_conv by blast
  then have 1: "set_appointment d i doc (Some df) = (booked_message d i doc, Some (map s_upd df))"
    by (simp add: sv)
  have "c_hit (s_upd r0)" using r0 unfolding c_hit_def s_upd_def by simp
  moreover have "s_upd r0 \<in> set (map s_upd df)" using r0(1) by simp
  ultimately have "filter c_hit (map s_upd df) \<noteq> []"
    unfolding filter_empty_conv by blast
  then have 2: "cancel_appointment d i doc (Some (map s_upd df)) =
                  (cancelled_message d i doc, Some (map c_upd (map s_upd df)))"
    by (simp add: cv)
  have restored: "c_upd (s_upd r) = r"
    if "date_slot r = d \<and> doctor_name r = doc \<longrightarrow> is_available r \<and> patient_to_attend r = None"
    for r
  proof (cases "date_slot r = d \<and> doctor_name r = doc")
    case True
    with that have "is_available r" "patient_to_attend r = None" by blast+
    with True show ?thesis
      unfolding c_upd_def s_upd_def by (simp add: restore_row)
  next
    case False
    then show ?thesis
      unfolding c_upd_def s_upd_def by auto
  qed
  have 3: "\<forall>k < length df.
              (date_slot (df ! k) = d \<and> doctor_name (df ! k) = doc \<longrightarrow>
                 is_available (df ! k) \<and> patient_to_attend (df ! k) = None)
              \<longrightarrow> map c_upd (map s_upd df) ! k = df ! k"
    using restored by simp
  have 4: "map c_upd (map s_upd df) = df"
    if dist: "distinct (map (\<lambda>r. (doctor_name r, date_slot r)) df)"
  proof -
    have "date_slot r = d \<and> doctor_name r = doc \<longrightarrow>
            is_available r \<and> patient_to_attend r = None" if "r \<in> set df" for r
    proof
      assume "date_slot r = d \<and> doctor_name r = doc"
      with r0 have "(\<lambda>r. (doctor_name r, date_slot r)) r = (\<lambda>r. (doctor_name r, date_slot r)) r0"
        by simp
      with dist that r0(1) have "r = r0"
        by (meson distinct_map inj_onD)
      with r0 show "is_available r \<and> patient_to_attend r = None" by simp
    qed
    then have "\<forall>r \<in> set df. c_upd (s_upd r) = r"
      using restored by blast
    then show ?thesis
      by (simp add: map_idI)
  qed
  from 1 2 3 4 show ?thesis
    by (intro exI [of _ "map s_upd df"] exI [of _ "map c_upd (map s_upd df)"]) simp
qed

theorem set_then_cancel_round_trip_witness:
  "DateTimeModel ''08-08-2024 20:00'' \<noteq> None \<and>
   IdentificationNumberModel 1000082 \<noteq> None \<and>
   (\<exists>r \<in> set [later_slot, seeded_slot].
       date_slot r = ''08-08-2024 20:00'' \<and> doctor_name r = ''emily johnson'' \<and>
       is_available r \<and> patient_to_attend r = None) \<and>
   distinct (map (\<lambda>r. (doctor_name r, date_slot r)) [later_slot, seeded_slot]) \<and>
   (\<exists>df1. set_appointment ''08-08-2024 20:00'' 1000082 ''emily johnson''
             (Some [later_slot, seeded_slot]) =
           (booked_message ''08-08-2024 20:00'' 1000082 ''emily johnson'', Some df1) \<and>
         cancel_appointment ''08-08-2024 20:00'' 1000082 ''emily johnson'' (Some df1) =
           (cancelled_message ''08-08-2024 20:00'' 1000082 ''emily johnson'',
            Some [later_slot, seeded_slot]))"
proof -
  note v = sample_inputs_valid(1) sample_inputs_valid(3)
  have a: "\<exists>r \<in> set [later_slot, seeded_slot].
             date_slot r = ''08-08-2024 20:00'' \<and> doctor_name r = ''emily johnson'' \<and>
             is_available r \<and> patient_to_attend r = None"
    by (simp add: seeded_slot_def)
  have b: "distinct (map (\<lambda>r. (doctor_name r, date_slot r)) [later_slot, seeded_slot])"
    by (simp add: seeded_slot_def later_slot_def)
  from set_then_cancel_round_trip [OF v a] b
  have "\<exists>df1. set_appointment ''08-08-2024 20:00'' 1000082 ''emily johnson''
             (Some [later_slot, seeded_slot]) =
           (booked_message ''08-08-2024 20:00'' 1000082 ''emily johnson'', Some df1) \<and>
         cancel_appointment ''08-08-2024 20:00'' 1000082 ''emily johnson'' (Some df1) =
           (cancelled_message ''08-08-2024 20:00'' 1000082 ''emily johnson'',
            Some [later_slot, seeded_slot])"
    by blast
  with v a b show ?thesis by blast
qed

section \<open>Texts that the reschedule tests\<close>

lemma pair_in_append:
  "sublist [a, b] (ys @ zs) \<longleftrightarrow>
     sublist [a, b] ys \<or> sublist [a, b] zs \<or> (suffix [a] ys \<and> prefix [b] zs)"
proof
  assume "sublist [a, b] (ys @ zs)"
  then consider "sublist [a, b] ys" | "sublist [a, b] zs"
    | xs1 xs2 where "[a, b] = xs1 @ xs2" "suffix xs1 ys" "prefix xs2 zs"
    unfolding sublist_append by blast
  then show "sublist [a, b] ys \<or> sublist [a, b] zs \<or> (suffix [a] ys \<and> prefix [b] zs)"
  proof cases
    case 3
    from 3(1) have "xs1 = [] \<and> xs2 = [a, b] \<or> xs1 = [a] \<and> xs2 = [b] \<or>
                    xs1 = [a, b] \<and> xs2 = []"
      by (cases xs1; cases "tl xs1") auto
    with 3(2,3) show ?thesis
      by (auto dest: prefix_imp_sublist suffix_imp_sublist)
  qed simp_all
next
  assume r: "sublist [a, b] ys \<or> sublist [a, b] zs \<or> (suffix [a] ys \<and> prefix [b] zs)"
  show "sublist [a, b] (ys @ zs)"
  proof -
    have "suffix [a] ys \<and> prefix [b] zs \<Longrightarrow>
          \<exists>xs1 xs2. [a, b] = xs1 @ xs2 \<and> suffix xs1 ys \<and> prefix xs2 zs"
      by (intro exI [of _ "[a]"] exI [of _ "[b]"]) simp
    with r show ?thesis unfolding sublist_append by blast
  qed
qed

lemma upper_char_not_a: "upper_char c \<noteq> CHR ''a''"
  by (simp add: upper_char_def ascii_lowercase_def ascii_uppercase_def)

lemma title_from_start: "\<not> prefix [CHR ''a''] (title_from False s)"
proof (cases s)
  case Nil
  then show ?thesis by simp
next
  case (Cons c cs)
  with upper_char_not_a [of c] show ?thesis by auto
qed

lemma upper_char_blank: "upper_char c = CHR '' '' \<Longrightarrow> \<not> is_cased c"
  by (simp add: upper_char_def is_cased_def ascii_lowercase_def ascii_uppercase_def
      split: if_splits)

lemma digit_cases:
  "k < 10 \<Longrightarrow> k = 0 \<or> k = 1 \<or> k = 2 \<or> k = 3 \<or> k = 4 \<or> k = 5 \<or> k = 6 \<or> k = 7 \<or> k = 8 \<or> k = (9::nat)"
  by arith

lemma digit_char_is_digit: "k < 10 \<Longrightarrow> is_digit (digit_char k)"
  by (drule digit_cases) (auto simp: digit_char_def is_digit_def)

lemma str_nat_digits: "str_nat n \<noteq> [] \<and> list_all is_digit (str_nat n)"
proof (induction n rule: str_nat.induct)
  case (1 n)
  show ?case
  proof (cases "n < 10")
    case True
    then show ?thesis
      by (subst (1 2) str_nat.simps) (simp add: digit_char_is_digit)
  next
    case False
    with 1 show ?thesis
      by (subst (1 2) str_nat.simps) (simp add: digit_char_is_digit)
  qed
qed

lemma matches_shape_chars:
  "matches_shape p s \<Longrightarrow> list_all (\<lambda>c. is_digit c \<or> c \<in> set p) s"
  by (induction p s rule: matches_shape.induct) (auto simp: list_all_iff split: if_splits)

lemma DateTimeModel_chars:
  assumes "DateTimeModel d \<noteq> None"
  shows "d \<noteq> []" and "CHR ''a'' \<notin> set d"
proof -
  from assms have m: "matches_shape ''dd-dd-dddd dd:dd'' d"
    by (simp add: DateTimeModel_def split: if_splits)
  show "d \<noteq> []"
  proof
    assume "d = []"
    with m show False by simp
  qed
  have 1: "\<not> is_digit (CHR ''a'')"
    by (simp add: is_digit_def)
  have 2: "CHR ''a'' \<notin> set ''dd-dd-dddd dd:dd''"
    by simp
  from matches_shape_chars [OF m]
  have "\<forall>c \<in> set d. is_digit c \<or> c \<in> set ''dd-dd-dddd dd:dd''"
    unfolding list_all_iff .
  with 1 2 show "CHR ''a'' \<notin> set d"
    by blast
qed

lemma lower_char_blank: "lower_char c = CHR '' '' \<Longrightarrow> \<not> is_cased c"
  by (simp add: lower_char_def is_cased_def ascii_lowercase_def ascii_uppercase_def
      split: if_splits)

lemma title_from_blank_a: "\<not> sublist [CHR '' '', CHR ''a''] (title_from p s)"
proof (induction s arbitrary: p)
  case Nil
  then show ?case by simp
next
  case (Cons c cs)
  have "\<not> prefix [CHR '' '', CHR ''a'']
            ((if p then lower_char c else upper_char c) # title_from (is_cased c) cs)"
  proof
    assume pre: "prefix [CHR '' '', CHR ''a'']
                   ((if p then lower_char c else upper_char c) # title_from (is_cased c) cs)"
    then have blank: "(if p then lower_char c else upper_char c) = CHR '' ''"
      and rest: "prefix [CHR ''a''] (title_from (is_cased c) cs)"
      by simp_all
    from blank have "\<not> is_cased c"
      by (cases p) (simp_all add: upper_char_blank lower_char_blank)
    with rest title_from_start [of cs] show False by simp
  qed
  with Cons.IH [of "is_cased c"] show ?case
    by (simp add: sublist_Cons_right)
qed

lemma pair_not_in:
  "b \<notin> set xs \<Longrightarrow> \<not> sublist [a, b] xs"
  using set_mono_sublist [of "[a, b]" xs] by auto

lemma no_prefix_append:
  "xs \<noteq> [] \<Longrightarrow> b \<notin> set xs \<Longrightarrow> \<not> prefix [b] (xs @ ys)"
  by (cases xs) auto

lemma no_suffix:
  "a \<notin> set xs \<Longrightarrow> \<not> suffix [a] xs"
  by (auto simp: suffix_def)

lemma prefix_one_append:
  "prefix [b] (xs @ ys) \<longleftrightarrow> (if xs = [] then prefix [b] ys else prefix [b] xs)"
  by (cases xs) simp_all

lemma str_int_digits:
  "0 \<le> i \<Longrightarrow> str_int i \<noteq> [] \<and> list_all is_digit (str_int i)"
  by (simp add: str_int_def str_nat_digits)

lemma cancelled_message_not_found_free:
  assumes "DateTimeModel d \<noteq> None" and "IdentificationNumberModel i \<noteq> None"
  shows "\<not> sublist ''No appointment found'' (cancelled_message d i doc)"
proof
  assume found: "sublist ''No appointment found'' (cancelled_message d i doc)"
  have "sublist [CHR '' '', CHR ''a''] ''No appointment found''"
    by (simp add: sublist_code)
  from this found have pair: "sublist [CHR '' '', CHR ''a''] (cancelled_message d i doc)"
    by (rule sublist_order.order.trans)
  from assms(2) have "0 \<le> i"
    by (simp add: IdentificationNumberModel_def split: if_splits)
  then have s1: "str_int i \<noteq> []" and s2: "list_all is_digit (str_int i)"
    using str_int_digits by blast+
  have "\<not> is_digit (CHR ''a'')" "\<not> is_digit (CHR '' '')"
    by (simp_all add: is_digit_def)
  with s2 have s3: "CHR ''a'' \<notin> set (str_int i)" and s4: "CHR '' '' \<notin> set (str_int i)"
    unfolding list_all_iff by blast+
  note dd = DateTimeModel_chars [OF assms(1)]
  let ?p = "[CHR '' '', CHR ''a'']"
  let ?l1 = "check_mark @ '' Appointment successfully cancelled for patient ID ''"
  have d1: "\<not> prefix [CHR ''a''] d"
    using dd(2) set_mono_prefix [of "[CHR ''a'']" d] by auto
  have t5: "\<not> sublist ?p ('' on '' @ d)"
    unfolding pair_in_append using dd(2) d1
    by (simp add: sublist_code pair_not_in)
  have t4: "\<not> sublist ?p (title doc @ '' on '' @ d)"
    unfolding pair_in_append [of _ _ "title doc"] using t5
    by (simp add: title_def title_from_blank_a)
  have t3: "\<not> sublist ?p ('' with Dr. '' @ title doc @ '' on '' @ d)"
    unfolding pair_in_append [of _ _ "'' with Dr. ''"] using t4 title_from_start [of doc]
    by (simp add: sublist_code prefix_one_append title_def)
  have t2: "\<not> sublist ?p (str_int i @ '' with Dr. '' @ title doc @ '' on '' @ d)"
    unfolding pair_in_append [of _ _ "str_int i"] using t3 s3 s4
    by (simp add: pair_not_in no_suffix)
  have t1: "\<not> sublist ?p (?l1 @ str_int i @ '' with Dr. '' @ title doc @ '' on '' @ d)"
    unfolding pair_in_append [of _ _ ?l1] using t2 s1 s3
    by (simp add: sublist_code check_mark_def no_prefix_append)
  from pair t1 show False
    by (simp add: cancelled_message_def)
qed

lemma no_appointment_found_message_found:
  "sublist ''No appointment found'' (no_appointment_found_message d i doc)"
proof -
  have "prefix ''No appointment found'' (no_appointment_found_message d i doc)"
    by (simp add: no_appointment_found_message_def)
  then show ?thesis by (rule prefix_imp_sublist)
qed

lemma booked_message_booked:
  "sublist ''successfully booked'' (booked_message d i doc)"
proof -
  have "sublist ''successfully booked'' '' Appointment successfully booked!''"
    by (simp add: sublist_code)
  then have "sublist ''successfully booked''
               (check_mark @ '' Appointment successfully booked!'' @
                ([newline] @ ''Doctor: Dr. '' @ title doc @ [newline] @
                 ''Date & Time: '' @ d @ [newline] @ ''Patient ID: '' @ str_int i))"
    unfolding sublist_append [of _ check_mark] sublist_append [of _ "'' Appointment successfully booked!''"]
    by blast
  then show ?thesis by (simp add: booked_message_def)
qed

section \<open>The availability queries\<close>

text \<open>
  C9. Neither availability query writes the store: whatever the date, the doctor name or
  the specialization, and whether the store exists or not, the file after the call is the
  file before the call. This covers the answers for a name that is not a doctor's, for a
  date that fails the validation, for a missing file, for the lookups that find nothing
  and for the errors caught while the answer is put together.
\<close>

theorem availability_queries_keep_store:
  "snd (check_availability_by_doctor desired_date doctor file) = file \<and>
   snd (check_availability_by_specialization desired_date spec file) = file"
  by (simp add: check_availability_by_doctor_def check_availability_by_specialization_def
      Let_def split: option.splits sum.splits)


section \<open>Rescheduling\<close>

lemma message_heads:
  "hd (no_slot_message d doc) = CHR ''N''"
  "hd (not_available_at_message d doc) = CHR ''D''"
  by (simp_all add: no_slot_message_def not_available_at_message_def)

lemma reschedule_appointment_valid:
  assumes "DateTimeModel old \<noteq> None" and "DateTimeModel new \<noteq> None"
    and "IdentificationNumberModel i \<noteq> None"
  shows "reschedule_appointment old new i doc (Some df) =
     (if filter (\<lambda>r. date_slot r = new \<and> is_available r \<and> doctor_name r = doc) df = []
      then (not_available_at_message new doc, Some df, [])
      else
        let (cancel_result, file1) = cancel_appointment old i doc (Some df)
        in if sublist ''No appointment found'' cancel_result
           then (cancel_result, file1, [''cancel_appointment''])
           else
             let (set_result, file2) = set_appointment new i doc file1
             in (if sublist ''successfully booked'' set_result
                 then rescheduled_message old new doc else set_result,
                 file2, [''cancel_appointment'', ''set_appointment'']))"
  by (simp add: reschedule_appointment_def DateTimeModel_valid [OF assms(1)]
      DateTimeModel_valid [OF assms(2)] IdentificationNumberModel_valid [OF assms(3)])

lemma reschedule_cancel_fails:
  assumes "DateTimeModel old \<noteq> None" and "DateTimeModel new \<noteq> None"
    and "IdentificationNumberModel i \<noteq> None"
    and "fst (cancel_appointment old i doc (Some df)) = no_appointment_found_message old i doc"
  shows "reschedule_appointment old new i doc (Some df) =
     (if \<exists>r \<in> set df. date_slot r = new \<and> is_available r \<and> doctor_name r = doc
      then (no_appointment_found_message old i doc, Some df, [''cancel_appointment''])
      else (not_available_at_message new doc, Some df, []))"
proof -
  have c: "cancel_appointment old i doc (Some df) =
             (no_appointment_found_message old i doc, Some df)"
  proof -
    have "fst (cancel_appointment old i doc (Some df)) \<noteq> cancelled_message old i doc"
      using assms(4) cancelled_message_head [of old i doc]
        no_appointment_found_message_head [of old i doc] by auto
    then show ?thesis
      unfolding cancel_appointment_valid [OF assms(1,3)] by (simp split: if_splits)
  qed
  have f: "(filter (\<lambda>r. date_slot r = new \<and> is_available r \<and> doctor_name r = doc) df = []) =
           (\<not> (\<exists>r \<in> set df. date_slot r = new \<and> is_available r \<and> doctor_name r = doc))"
    unfolding filter_empty_conv by blast
  show ?thesis
    unfolding reschedule_appointment_valid [OF assms(1-3)] f c
    by (simp add: no_appointment_found_message_found)
qed

lemma rebook_row:
  "\<not> is_available (r::slot) \<Longrightarrow> patient_to_attend r = Some i \<Longrightarrow>
   r\<lparr>is_available := True, patient_to_attend := None\<rparr>
    \<lparr>is_available := False, patient_to_attend := Some i\<rparr> = r"
  by (cases r) simp

lemma reschedule_both_succeed:
  assumes "DateTimeModel old \<noteq> None" and "DateTimeModel new \<noteq> None"
    and "IdentificationNumberModel i \<noteq> None"
    and c: "cancel_appointment old i doc (Some df) = (cancelled_message old i doc, Some df1)"
    and s: "set_appointment new i doc (Some df1) = (booked_message new i doc, Some df2)"
  shows "reschedule_appointment old new i doc (Some df) =
     (if \<exists>r \<in> set df. date_slot r = new \<and> is_available r \<and> doctor_name r = doc
      then (rescheduled_message old new doc, Some df2,
            [''cancel_appointment'', ''set_appointment''])
      else (not_available_at_message new doc, Some df2, []))"
proof (cases "\<exists>r \<in> set df. date_slot r = new \<and> is_available r \<and> doctor_name r = doc")
  case True
  then have f: "filter (\<lambda>r. date_slot r = new \<and> is_available r \<and> doctor_name r = doc) df \<noteq> []"
    unfolding filter_empty_conv by blast
  show ?thesis
    unfolding reschedule_appointment_valid [OF assms(1-3)] c
    using f True s
    by (simp add: cancelled_message_not_found_free [OF assms(1,3)] booked_message_booked)
next
  case False
  then have f: "filter (\<lambda>r. date_slot r = new \<and> is_available r \<and> doctor_name r = doc) df = []"
    unfolding filter_empty_conv by blast
  define c_hit where
    "c_hit = (\<lambda>r::slot. date_slot r = old \<and> patient_to_attend r = Some i \<and> doctor_name r = doc)"
  define c_upd where
    "c_upd = (\<lambda>r::slot. if date_slot r = old \<and> patient_to_attend r = Some i \<and>
                            doctor_name r = doc
                         then r\<lparr>is_available := True, patient_to_attend := None\<rparr> else r)"
  define s_hit where
    "s_hit = (\<lambda>r::slot. date_slot r = new \<and> doctor_name r = doc \<and> is_available r)"
  define s_key where "s_key = (\<lambda>r::slot. date_slot r = new \<and> doctor_name r = doc)"
  define s_upd where
    "s_upd = (\<lambda>r::slot. if date_slot r = new \<and> doctor_name r = doc \<and> is_available r
                         then r\<lparr>is_available := False, patient_to_attend := Some i\<rparr> else r)"
  have cv: "cancel_appointment old i doc (Some df) =
     (if filter c_hit df = [] then (no_appointment_found_message old i doc, Some df)
      else (cancelled_message old i doc, Some (map c_upd df)))"
    unfolding c_hit_def c_upd_def by (rule cancel_appointment_valid [OF assms(1,3)])
  have sv: "set_appointment new i doc (Some df1) =
     (if filter s_hit df1 = []
      then (if filter s_key df1 = [] then (no_slot_message new doc, Some df1)
            else (already_booked_message new doc, Some df1))
      else (booked_message new i doc, Some (map s_upd df1)))"
    unfolding s_hit_def s_key_def s_upd_def by (rule set_appointment_valid [OF assms(2,3)])
  have ne1: "no_appointment_found_message old i doc \<noteq> cancelled_message old i doc"
    using cancelled_message_head [of old i doc] no_appointment_found_message_head [of old i doc]
    by auto
  have ne2: "no_slot_message new doc \<noteq> booked_message new i doc"
    "already_booked_message new doc \<noteq> booked_message new i doc"
    using booked_message_head [of new i doc] already_booked_message_head [of new doc]
      message_heads(1) [of new doc] by auto
  from c cv ne1 have df1: "df1 = map c_upd df"
    by (simp split: if_splits)
  from s sv ne2 have hit1: "filter s_hit df1 \<noteq> []" and df2: "df2 = map s_upd df1"
    by (simp_all split: if_splits)
  from False have no_hit: "\<not> s_hit r" if "r \<in> set df" for r
    using that unfolding s_hit_def by blast
  from hit1 obtain x where "x \<in> set df1" "s_hit x"
    unfolding filter_empty_conv by blast
  then obtain r where r: "r \<in> set df" "s_hit (c_upd r)"
    unfolding df1 by auto
  have same: "old = new"
  proof (cases "c_hit r")
    case True
    then have "date_slot (c_upd r) = old"
      unfolding c_hit_def c_upd_def by simp
    with r(2) show ?thesis unfolding s_hit_def by simp
  next
    case False
    then have "c_upd r = r" unfolding c_hit_def c_upd_def by (rule if_not_P)
    with r no_hit show ?thesis by simp
  qed
  have fixed: "s_upd (c_upd x) = x" if x: "x \<in> set df" for x
  proof (cases "c_hit x")
    case True
    then have k: "date_slot x = new" "doctor_name x = doc" "patient_to_attend x = Some i"
      unfolding c_hit_def same by simp_all
    with no_hit [OF x] have "\<not> is_available x"
      unfolding s_hit_def by simp
    with k show ?thesis
      unfolding c_upd_def s_upd_def same by (simp add: rebook_row)
  next
    case False
    then have "c_upd x = x" unfolding c_hit_def c_upd_def by (rule if_not_P)
    moreover from no_hit [OF x] have "s_upd x = x"
      unfolding s_hit_def s_upd_def by (rule if_not_P)
    ultimately show ?thesis by simp
  qed
  then have "df2 = df"
    unfolding df2 df1 by (simp add: map_idI)
  with False f show ?thesis
    unfolding reschedule_appointment_valid [OF assms(1-3)] by simp
qed

text \<open>
  C7, as the claim states it, fails where the new slot is not available: the call then
  answers that the doctor is not available at the new date-time, before any cancel, so a
  cancel that would not find the old booking is not what is reported. Here the store
  holds one slot, booked; the patient asks to move a booking that does not exist to that
  slot.
\<close>

theorem reschedule_reports_unavailable_counterexample:
  "fst (cancel_appointment ''09-08-2024 10:30'' 1000082 ''emily johnson'' (Some [booked_slot])) =
     no_appointment_found_message ''09-08-2024 10:30'' 1000082 ''emily johnson'' \<and>
   fst (reschedule_appointment ''09-08-2024 10:30'' ''08-08-2024 20:00'' 1000082
          ''emily johnson'' (Some [booked_slot])) =
     not_available_at_message ''08-08-2024 20:00'' ''emily johnson'' \<and>
   fst (reschedule_appointment ''09-08-2024 10:30'' ''08-08-2024 20:00'' 1000082
          ''emily johnson'' (Some [booked_slot])) \<noteq>
   fst (cancel_appointment ''09-08-2024 10:30'' 1000082 ''emily johnson'' (Some [booked_slot]))"
proof -
  note v = sample_inputs_valid
  have c: "fst (cancel_appointment ''09-08-2024 10:30'' 1000082 ''emily johnson''
                  (Some [booked_slot])) =
           no_appointment_found_message ''09-08-2024 10:30'' 1000082 ''emily johnson''"
    unfolding cancel_appointment_valid [OF v(2,3)] by (simp add: booked_slot_def)
  have r: "fst (reschedule_appointment ''09-08-2024 10:30'' ''08-08-2024 20:00'' 1000082
                  ''emily johnson'' (Some [booked_slot])) =
           not_available_at_message ''08-08-2024 20:00'' ''emily johnson''"
    unfolding reschedule_cancel_fails [OF v(2,1,3) c] by (simp add: booked_slot_def)
  have "not_available_at_message ''08-08-2024 20:00'' ''emily johnson'' \<noteq>
        no_appointment_found_message ''09-08-2024 10:30'' 1000082 ''emily johnson''"
    using message_heads(2) [of "''08-08-2024 20:00''" "''emily johnson''"]
      no_appointment_found_message_head [of "''09-08-2024 10:30''" 1000082 "''emily johnson''"]
    by auto
  with c r show ?thesis by simp
qed

text \<open>
  C7, amended. \<^verbatim>\<open>reschedule_appointment\<close> on valid inputs and a store that exists.
  Whenever \<^verbatim>\<open>cancel_appointment\<close> of the old slot succeeds on the store and
  \<^verbatim>\<open>set_appointment\<close> of the new slot succeeds on the result, the store that the call
  leaves is the store that the two leave. Whenever \<^verbatim>\<open>cancel_appointment\<close> of the old
  slot would not find the booking, the call leaves the store as it is and never invokes
  \<^verbatim>\<open>set_appointment\<close>; it reports the cancel's failure when a row for the new slot is
  available, and otherwise reports that the doctor is not available at the new date-time.
\<close>

theorem reschedule_appointment_outcomes:
  assumes "DateTimeModel old \<noteq> None" and "DateTimeModel new \<noteq> None"
    and "IdentificationNumberModel i \<noteq> None"
  shows "(cancel_appointment old i doc (Some df) = (cancelled_message old i doc, Some df1) \<and>
          set_appointment new i doc (Some df1) = (booked_message new i doc, Some df2) \<longrightarrow>
            fst (snd (reschedule_appointment old new i doc (Some df))) = Some df2) \<and>
         (fst (cancel_appointment old i doc (Some df)) = no_appointment_found_message old i doc \<longrightarrow>
            fst (snd (reschedule_appointment old new i doc (Some df))) = Some df \<and>
            ''set_appointment'' \<notin> set (snd (snd (reschedule_appointment old new i doc (Some df)))) \<and>
            fst (reschedule_appointment old new i doc (Some df)) =
              (if \<exists>r \<in> set df. date_slot r = new \<and> is_available r \<and> doctor_name r = doc
               then no_appointment_found_message old i doc
               else not_available_at_message new doc))"
proof (intro conjI impI)
  assume "cancel_appointment old i doc (Some df) = (cancelled_message old i doc, Some df1) \<and>
          set_appointment new i doc (Some df1) = (booked_message new i doc, Some df2)"
  then have "reschedule_appointment old new i doc (Some df) =
     (if \<exists>r \<in> set df. date_slot r = new \<and> is_available r \<and> doctor_name r = doc
      then (rescheduled_message old new doc, Some df2,
            [''cancel_appointment'', ''set_appointment''])
      else (not_available_at_message new doc, Some df2, []))"
    using reschedule_both_succeed [OF assms] by blast
  then show "fst (snd (reschedule_appointment old new i doc (Some df))) = Some df2"
    by (simp split: if_splits)
next
  assume f: "fst (cancel_appointment old i doc (Some df)) =
               no_appointment_found_message old i doc"
  note r = reschedule_cancel_fails [OF assms f]
  show "fst (snd (reschedule_appointment old new i doc (Some df))) = Some df"
    unfolding r by (simp split: if_splits)
  show "''set_appointment'' \<notin> set (snd (snd (reschedule_appointment old new i doc (Some df))))"
    unfolding r by (simp split: if_splits)
  show "fst (reschedule_appointment old new i doc (Some df)) =
          (if \<exists>r \<in> set df. date_slot r = new \<and> is_available r \<and> doctor_name r = doc
           then no_appointment_found_message old i doc
           else not_available_at_message new doc)"
    unfolding r by (simp only: if_distrib [of fst] fst_conv)
qed

theorem reschedule_appointment_outcomes_witness:
  "DateTimeModel ''08-08-2024 20:00'' \<noteq> None \<and>
   DateTimeModel ''09-08-2024 10:30'' \<noteq> None \<and>
   IdentificationNumberModel 1000082 \<noteq> None \<and>
   cancel_appointment ''08-08-2024 20:00'' 1000082 ''emily johnson''
       (Some [booked_slot, later_slot]) =
     (cancelled_message ''08-08-2024 20:00'' 1000082 ''emily johnson'',
      Some [seeded_slot, later_slot]) \<and>
   set_appointment ''09-08-2024 10:30'' 1000082 ''emily johnson''
       (Some [seeded_slot, later_slot]) =
     (booked_message ''09-08-2024 10:30'' 1000082 ''emily johnson'',
      Some [seeded_slot, later_booked_slot]) \<and>
   fst (snd (reschedule_appointment ''08-08-2024 20:00'' ''09-08-2024 10:30'' 1000082
               ''emily johnson'' (Some [booked_slot, later_slot]))) =
     Some [seeded_slot, later_booked_slot] \<and>
   fst (cancel_appointment ''08-08-2024 20:00'' 1000082 ''emily johnson''
          (Some [seeded_slot, later_slot])) =
     no_appointment_found_message ''08-08-2024 20:00'' 1000082 ''emily johnson'' \<and>
   fst (snd (reschedule_appointment ''08-08-2024 20:00'' ''09-08-2024 10:30'' 1000082
               ''emily johnson'' (Some [seeded_slot, later_slot]))) =
     Some [seeded_slot, later_slot] \<and>
   fst (reschedule_appointment ''08-08-2024 20:00'' ''09-08-2024 10:30'' 1000082
          ''emily johnson'' (Some [seeded_slot, later_slot])) =
     no_appointment_found_message ''08-08-2024 20:00'' 1000082 ''emily johnson''"
proof -
  note v = sample_inputs_valid
  have c: "cancel_appointment ''08-08-2024 20:00'' 1000082 ''emily johnson''
             (Some [booked_slot, later_slot]) =
           (cancelled_message ''08-08-2024 20:00'' 1000082 ''emily johnson'',
            Some [seeded_slot, later_slot])"
    unfolding cancel_appointment_valid [OF v(1,3)]
    by (simp add: booked_slot_def later_slot_def seeded_slot_def)
  have s: "set_appointment ''09-08-2024 10:30'' 1000082 ''emily johnson''
             (Some [seeded_slot, later_slot]) =
           (booked_message ''09-08-2024 10:30'' 1000082 ''emily johnson'',
            Some [seeded_slot, later_booked_slot])"
    unfolding set_appointment_valid [OF v(2,3)]
    by (simp add: later_booked_slot_def later_slot_def seeded_slot_def)
  have n: "fst (cancel_appointment ''08-08-2024 20:00'' 1000082 ''emily johnson''
                  (Some [seeded_slot, later_slot])) =
           no_appointment_found_message ''08-08-2024 20:00'' 1000082 ''emily johnson''"
    unfolding cancel_appointment_valid [OF v(1,3)]
    by (simp add: later_slot_def seeded_slot_def)
  have a: "\<exists>r \<in> set [seeded_slot, later_slot].
             date_slot r = ''09-08-2024 10:30'' \<and> is_available r \<and>
             doctor_name r = ''emily johnson''"
    by (simp add: later_slot_def)
  from reschedule_appointment_outcomes [OF v(1,2,3),
      of "''emily johnson''" "[booked_slot, later_slot]" "[seeded_slot, later_slot]"
         "[seeded_slot, later_booked_slot]"] c s
  have 1: "fst (snd (reschedule_appointment ''08-08-2024 20:00'' ''09-08-2024 10:30'' 1000082
               ''emily johnson'' (Some [booked_slot, later_slot]))) =
           Some [seeded_slot, later_booked_slot]"
    by blast
  from reschedule_appointment_outcomes [OF v(1,2,3),
      of "''emily johnson''" "[seeded_slot, later_slot]"] n a
  have 2: "fst (snd (reschedule_appointment ''08-08-2024 20:00'' ''09-08-2024 10:30'' 1000082
               ''emily johnson'' (Some [seeded_slot, later_slot]))) =
             Some [seeded_slot, later_slot]"
    and 3: "fst (reschedule_appointment ''08-08-2024 20:00'' ''09-08-2024 10:30'' 1000082
          ''emily johnson'' (Some [seeded_slot, later_slot])) =
     no_appointment_found_message ''08-08-2024 20:00'' 1000082 ''emily johnson''"
    by simp_all
  from v c s n 1 2 3 show ?thesis by blast
qed

section \<open>Times in 12-hour and 24-hour form\<close>

lemma digit_char_facts:
  assumes "k < 10"
  shows "\<not> is_space (digit_char k)"
    and "digit_char k \<noteq> CHR ''-''" and "digit_char k \<noteq> CHR ''+''"
    and "digit_char k \<noteq> CHR ''_''" and "digit_char k \<noteq> CHR '':''"
    and "digit_val (digit_char k) = k"
  using digit_cases [OF assms]
  by (auto simp: digit_char_def is_space_def digit_val_def)

lemma digit_char_0: "digit_char 0 = CHR ''0''"
  by (simp add: digit_char_def)

lemma fmt_02d_two_digits:
  assumes "n < 100"
  shows "fmt_02d (int n) = [digit_char (n div 10), digit_char (n mod 10)]"
proof (cases "n < 10")
  case True
  then have "str_nat n = [digit_char n]"
    by (subst str_nat.simps) simp
  with True show ?thesis
    by (simp add: fmt_02d_def str_int_def digit_char_0)
next
  case False
  with assms have "n div 10 < 10" by simp
  then have "str_nat (n div 10) = [digit_char (n div 10)]"
    by (subst str_nat.simps) simp
  with False have "str_nat n = [digit_char (n div 10), digit_char (n mod 10)]"
    by (subst str_nat.simps) simp
  then show ?thesis
    by (simp add: fmt_02d_def str_int_def)
qed

lemma py_int_two_digits:
  assumes "a < 10" and "b < 10"
  shows "py_int [digit_char a, digit_char b] = Some (int (10 * a + b))"
proof -
  note fa = digit_char_facts [OF assms(1)] digit_char_is_digit [OF assms(1)]
  note fb = digit_char_facts [OF assms(2)] digit_char_is_digit [OF assms(2)]
  have s: "strip [digit_char a, digit_char b] = [digit_char a, digit_char b]"
    by (simp add: strip_def fa fb)
  have g: "split_on (CHR ''_'') [digit_char a, digit_char b] = [[digit_char a, digit_char b]]"
    by (simp add: fa fb)
  have d: "int_digits [digit_char a, digit_char b] = Some (10 * a + b)"
    by (simp add: int_digits_def g digits_val_def fa fb)
  show ?thesis
    unfolding py_int_def s using fa(2,3) d by simp
qed

lemma split_on_colon:
  assumes "a < 10" and "b < 10" and "c < 10" and "e < 10"
  shows "split_on (CHR '':'') ([digit_char a, digit_char b] @ '':'' @ [digit_char c, digit_char e]) =
           [[digit_char a, digit_char b], [digit_char c, digit_char e]]"
  using digit_char_facts(5) [OF assms(1)] digit_char_facts(5) [OF assms(2)]
    digit_char_facts(5) [OF assms(3)] digit_char_facts(5) [OF assms(4)]
  by simp

lemma convert_to_am_pm_two_digits:
  assumes "h \<le> 23" and "m \<le> 59"
  shows "convert_to_am_pm (fmt_02d (int h) @ '':'' @ fmt_02d (int m)) =
           Inr (str_nat (if h mod 12 = 0 then 12 else h mod 12) @ '':'' @ fmt_02d (int m) @
                '' '' @ (if h < 12 then ''AM'' else ''PM''))"
proof -
  from assms have b: "h div 10 < 10" "h mod 10 < 10" "m div 10 < 10" "m mod 10 < 10"
    by simp_all
  from assms have hh: "fmt_02d (int h) = [digit_char (h div 10), digit_char (h mod 10)]"
    and mm: "fmt_02d (int m) = [digit_char (m div 10), digit_char (m mod 10)]"
    by (simp_all add: fmt_02d_two_digits)
  have ph: "py_int [digit_char (h div 10), digit_char (h mod 10)] = Some (int h)"
    using py_int_two_digits [OF b(1,2)] by simp
  have pm: "py_int [digit_char (m div 10), digit_char (m mod 10)] = Some (int m)"
    using py_int_two_digits [OF b(3,4)] by simp
  have u: "unpack_hours_minutes
             (split_on (CHR '':'') (fmt_02d (int h) @ '':'' @ fmt_02d (int m))) =
           Inr (int h, int m)"
    unfolding hh mm split_on_colon [OF b] by (simp add: unpack_hours_minutes_def ph pm)
  have m12: "int h mod 12 = int (h mod 12)"
    by (simp add: zmod_int)
  have s: "str_int (if int h mod 12 = 0 then 12 else int h mod 12) =
           str_nat (if h mod 12 = 0 then 12 else h mod 12)"
    unfolding m12 by (simp add: str_int_def)
  show ?thesis
    unfolding convert_to_am_pm_def u using s by (simp add: Let_def)
qed

lemma upper_char_AMP:
  "upper_char (CHR ''A'') = CHR ''A''" "upper_char (CHR ''P'') = CHR ''P''"
  "upper_char (CHR ''M'') = CHR ''M''"
  by (simp_all add: upper_char_def ascii_lowercase_def ascii_uppercase_def)

lemma is_space_facts:
  "is_space (CHR '' '')" "\<not> is_space (CHR ''A'')" "\<not> is_space (CHR ''P'')"
  "\<not> is_digit (CHR '':'')"
  by (simp_all add: is_space_def is_digit_def)

lemma match_tail_hit:
  assumes "is_digit m1" and "is_digit m2" and "\<not> is_space p"
    and "upper_char p = CHR ''A'' \<or> upper_char p = CHR ''P''" and "is_space (CHR '' '')"
  shows "match_tail hour (CHR '':'' # m1 # m2 # CHR '' '' # p # CHR ''M'' # []) =
           Some (hour, [m1, m2], [p, CHR ''M''])"
proof -
  have "dropWhile is_space (CHR '' '' # p # CHR ''M'' # []) = p # CHR ''M'' # []"
    using assms(3,5) by simp
  moreover have "upper_char (CHR ''M'') = CHR ''M''"
    by (simp add: upper_char_def ascii_lowercase_def ascii_uppercase_def)
  ultimately show ?thesis
    unfolding match_tail_def using assms(1,2,4) by (simp only: list.case if_True simp_thms)
qed

lemma search_time_one_digit:
  assumes "is_digit d1" and "is_digit m1" and "is_digit m2" and "p = CHR ''A'' \<or> p = CHR ''P''"
  shows "search_time (d1 # CHR '':'' # m1 # m2 # CHR '' '' # p # CHR ''M'' # []) =
           Some ([d1], [m1, m2], [p, CHR ''M''])"
proof -
  from assms(4) have p: "\<not> is_space p" "upper_char p = CHR ''A'' \<or> upper_char p = CHR ''P''"
    using is_space_facts(2,3) upper_char_AMP(1,2) by auto
  have t: "match_tail [d1] (CHR '':'' # m1 # m2 # CHR '' '' # p # CHR ''M'' # []) =
             Some ([d1], [m1, m2], [p, CHR ''M''])"
    by (rule match_tail_hit [OF assms(2,3) p is_space_facts(1)])
  have "match_time_at (d1 # CHR '':'' # m1 # m2 # CHR '' '' # p # CHR ''M'' # []) =
          Some ([d1], [m1, m2], [p, CHR ''M''])"
    unfolding match_time_at_def using assms(1) is_space_facts(4) t
    by (simp only: list.case if_True if_False simp_thms)
  then show ?thesis
    by (simp only: search_time.simps option.case)
qed

lemma search_time_two_digits:
  assumes "is_digit d1" and "is_digit d2" and "is_digit m1" and "is_digit m2"
    and "p = CHR ''A'' \<or> p = CHR ''P''"
  shows "search_time (d1 # d2 # CHR '':'' # m1 # m2 # CHR '' '' # p # CHR ''M'' # []) =
           Some ([d1, d2], [m1, m2], [p, CHR ''M''])"
proof -
  from assms(5) have p: "\<not> is_space p" "upper_char p = CHR ''A'' \<or> upper_char p = CHR ''P''"
    using is_space_facts(2,3) upper_char_AMP(1,2) by auto
  have t: "match_tail [d1, d2] (CHR '':'' # m1 # m2 # CHR '' '' # p # CHR ''M'' # []) =
             Some ([d1, d2], [m1, m2], [p, CHR ''M''])"
    by (rule match_tail_hit [OF assms(3,4) p is_space_facts(1)])
  have "match_time_at (d1 # d2 # CHR '':'' # m1 # m2 # CHR '' '' # p # CHR ''M'' # []) =
          Some ([d1, d2], [m1, m2], [p, CHR ''M''])"
    unfolding match_time_at_def using assms(1,2) t
    by (simp only: list.case if_True if_False simp_thms option.case)
  then show ?thesis
    by (simp only: search_time.simps option.case)
qed

lemma extracted_time_12h:
  assumes "1 \<le> k" and "k \<le> 12" and "m \<le> 59" and "p = CHR ''A'' \<or> p = CHR ''P''"
  shows "extracted_time (str_nat k @ '':'' @ fmt_02d (int m) @ '' '' @ [p, CHR ''M'']) =
           fmt_02d (if p = CHR ''P'' \<and> k \<noteq> 12 then int k + 12
                    else if p = CHR ''A'' \<and> k = 12 then 0 else int k) @
           '':'' @ fmt_02d (int m)"
proof -
  from assms(3) have b: "m div 10 < 10" "m mod 10 < 10" by simp_all
  from assms(3) have mm: "fmt_02d (int m) = [digit_char (m div 10), digit_char (m mod 10)]"
    by (simp add: fmt_02d_two_digits)
  note dm = digit_char_is_digit [OF b(1)] digit_char_is_digit [OF b(2)]
  have up: "map upper_char [p, CHR ''M''] = [p, CHR ''M'']"
    using assms(4) upper_char_AMP by auto
  have pm: "([p, CHR ''M''] = ''PM'') = (p = CHR ''P'')"
    "([p, CHR ''M''] = ''AM'') = (p = CHR ''A'')"
    by simp_all
  show ?thesis
  proof (cases "k < 10")
    case True
    then have sk: "str_nat k = [digit_char k]"
      by (subst str_nat.simps) simp
    have arg: "str_nat k @ '':'' @ fmt_02d (int m) @ '' '' @ [p, CHR ''M''] =
               digit_char k # CHR '':'' # digit_char (m div 10) # digit_char (m mod 10) #
               CHR '' '' # p # CHR ''M'' # []"
      by (simp add: sk mm)
    have st: "search_time (digit_char k # CHR '':'' # digit_char (m div 10) #
                           digit_char (m mod 10) # CHR '' '' # p # CHR ''M'' # []) =
              Some ([digit_char k], [digit_char (m div 10), digit_char (m mod 10)],
                    [p, CHR ''M''])"
      by (rule search_time_one_digit [OF digit_char_is_digit [OF True] dm assms(4)])
    have hv: "int (digits_val [digit_char k]) = int k"
      by (simp add: digits_val_def digit_char_facts(6) [OF True])
    have e: "extracted_time (digit_char k # CHR '':'' # digit_char (m div 10) #
                             digit_char (m mod 10) # CHR '' '' # p # CHR ''M'' # []) =
             fmt_02d (if p = CHR ''P'' \<and> k \<noteq> 12 then int k + 12
                      else if p = CHR ''A'' \<and> k = 12 then 0 else int k) @
             '':'' @ [digit_char (m div 10), digit_char (m mod 10)]"
      unfolding extracted_time_def st option.case prod.case Let_def hv up pm
      by simp
    show ?thesis
      unfolding arg unfolding mm by (rule e)
  next
    case False
    with assms(2) have kd: "k div 10 < 10" "k mod 10 < 10"
      by simp_all
    from kd(1) have "str_nat (k div 10) = [digit_char (k div 10)]"
      by (subst str_nat.simps) simp
    with False have sk: "str_nat k = [digit_char (k div 10), digit_char (k mod 10)]"
      by (subst str_nat.simps) simp
    have arg: "str_nat k @ '':'' @ fmt_02d (int m) @ '' '' @ [p, CHR ''M''] =
               digit_char (k div 10) # digit_char (k mod 10) # CHR '':'' #
               digit_char (m div 10) # digit_char (m mod 10) # CHR '' '' # p # CHR ''M'' # []"
      by (simp add: sk mm)
    have st: "search_time (digit_char (k div 10) # digit_char (k mod 10) # CHR '':'' #
                digit_char (m div 10) # digit_char (m mod 10) # CHR '' '' # p # CHR ''M'' # []) =
              Some ([digit_char (k div 10), digit_char (k mod 10)],
                    [digit_char (m div 10), digit_char (m mod 10)], [p, CHR ''M''])"
      by (rule search_time_two_digits [OF digit_char_is_digit [OF kd(1)]
            digit_char_is_digit [OF kd(2)] dm assms(4)])
    have hv: "int (digits_val [digit_char (k div 10), digit_char (k mod 10)]) = int k"
      by (simp add: digits_val_def digit_char_facts(6) [OF kd(1)] digit_char_facts(6) [OF kd(2)])
    have e: "extracted_time (digit_char (k div 10) # digit_char (k mod 10) # CHR '':'' #
                digit_char (m div 10) # digit_char (m mod 10) # CHR '' '' # p # CHR ''M'' # []) =
             fmt_02d (if p = CHR ''P'' \<and> k \<noteq> 12 then int k + 12
                      else if p = CHR ''A'' \<and> k = 12 then 0 else int k) @
             '':'' @ [digit_char (m div 10), digit_char (m mod 10)]"
      unfolding extracted_time_def st option.case prod.case Let_def hv up pm
      by simp
    show ?thesis
      unfolding arg unfolding mm by (rule e)
  qed
qed

text \<open>
  C10. A time of day \<^verbatim>\<open>HH:MM\<close>, each part written with two digits, the hour at most 23
  and the minute at most 59: \<^verbatim>\<open>convert_to_am_pm\<close> writes it in 12-hour form, and the time
  extraction of the booking handler, run on that text, gives the \<^verbatim>\<open>HH:MM\<close> it started
  from. Midnight goes through \<^verbatim>\<open>12:MM AM\<close> and noon through \<^verbatim>\<open>12:MM PM\<close>.
\<close>

theorem time_round_trip:
  assumes "h \<le> 23" and "m \<le> 59"
  shows "\<exists>t. convert_to_am_pm (fmt_02d (int h) @ '':'' @ fmt_02d (int m)) = Inr t \<and>
             extracted_time t = fmt_02d (int h) @ '':'' @ fmt_02d (int m) \<and>
             (h = 0 \<longrightarrow> t = ''12:'' @ fmt_02d (int m) @ '' AM'') \<and>
             (h = 12 \<longrightarrow> t = ''12:'' @ fmt_02d (int m) @ '' PM'')"
proof -
  define k where "k = (if h mod 12 = 0 then 12 else h mod 12)"
  define p where "p = (if h < 12 then CHR ''A'' else CHR ''P'')"
  define t where "t = str_nat k @ '':'' @ fmt_02d (int m) @ '' '' @ [p, CHR ''M'']"
  have k: "1 \<le> k" "k \<le> 12"
    unfolding k_def by simp_all
  have p: "p = CHR ''A'' \<or> p = CHR ''P''"
    unfolding p_def by simp
  have period: "(if h < 12 then ''AM'' else ''PM'') = [p, CHR ''M'']"
    unfolding p_def by simp
  have 1: "convert_to_am_pm (fmt_02d (int h) @ '':'' @ fmt_02d (int m)) = Inr t"
    unfolding convert_to_am_pm_two_digits [OF assms] period t_def k_def ..
  have hour: "(if p = CHR ''P'' \<and> k \<noteq> 12 then int k + 12
               else if p = CHR ''A'' \<and> k = 12 then 0 else int k) = int h"
    using assms(1) unfolding k_def p_def by (auto simp: mod_if)
  have 2: "extracted_time t = fmt_02d (int h) @ '':'' @ fmt_02d (int m)"
    unfolding t_def extracted_time_12h [OF k assms(2) p] hour ..
  have twelve: "str_nat 12 = ''12''"
    by (simp add: str_nat.simps digit_char_def)
  have 3: "t = ''12:'' @ fmt_02d (int m) @ '' AM''" if "h = 0"
    using that unfolding t_def k_def p_def by (simp add: twelve)
  have 4: "t = ''12:'' @ fmt_02d (int m) @ '' PM''" if "h = 12"
    using that unfolding t_def k_def p_def by (simp add: twelve)
  from 1 2 3 4 show ?thesis by blast
qed

theorem time_round_trip_witness:
  "(20::nat) \<le> 23 \<and> (0::nat) \<le> 59 \<and>
   fmt_02d (int 20) @ '':'' @ fmt_02d (int 0) = ''20:00'' \<and>
   convert_to_am_pm ''20:00'' = Inr ''8:00 PM'' \<and>
   extracted_time ''8:00 PM'' = ''20:00''"
proof -
  have f: "fmt_02d (int 20) @ '':'' @ fmt_02d (int 0) = ''20:00''"
    by (simp add: fmt_02d_def str_int_def str_nat.simps digit_char_def)
  have c: "convert_to_am_pm ''20:00'' = Inr ''8:00 PM''"
    using convert_to_am_pm_two_digits [of 20 0]
    by (simp add: fmt_02d_def str_int_def str_nat.simps digit_char_def)
  from time_round_trip [of 20 0] obtain t
    where "convert_to_am_pm (fmt_02d (int 20) @ '':'' @ fmt_02d (int 0)) = Inr t"
      and "extracted_time t = fmt_02d (int 20) @ '':'' @ fmt_02d (int 0)"
    by auto
  with f c have "extracted_time ''8:00 PM'' = ''20:00''"
    by simp
  with f c show ?thesis by simp
qed

end
